theory Spec2Isabelle
  imports Complex_Main
begin

section \<open>JavaScript numbers\<close>

text \<open>
  The engine computes with JavaScript numbers.  They are modelled as exact reals
  extended with the three special values of IEEE arithmetic that the code can produce:
  \<open>NaN\<close> and the two infinities.  Rounding, overflow and the sign of zero are not
  modelled: a finite result is the exact real result.  The arithmetic operators are the
  JavaScript ones: \<open>NaN\<close> is absorbing, \<open>0 / 0 = NaN\<close>, \<open>x / 0 = \<plusminus>Infinity\<close>
  for \<open>x \<noteq> 0\<close>, and every comparison with \<open>NaN\<close> is false.
\<close>

datatype jsnum = Num real | NaN | PInf | NInf

instantiation jsnum :: "{plus,minus,times,inverse,uminus,ord}"
begin

fun plus_jsnum :: "jsnum \<Rightarrow> jsnum \<Rightarrow> jsnum" where
  "plus_jsnum (Num a) (Num b) = Num (a + b)"
| "plus_jsnum NaN _ = NaN"
| "plus_jsnum _ NaN = NaN"
| "plus_jsnum PInf NInf = NaN"
| "plus_jsnum NInf PInf = NaN"
| "plus_jsnum PInf _ = PInf"
| "plus_jsnum _ PInf = PInf"
| "plus_jsnum NInf _ = NInf"
| "plus_jsnum _ NInf = NInf"

fun uminus_jsnum :: "jsnum \<Rightarrow> jsnum" where
  "uminus_jsnum (Num a) = Num (- a)"
| "uminus_jsnum NaN = NaN"
| "uminus_jsnum PInf = NInf"
| "uminus_jsnum NInf = PInf"

definition minus_jsnum :: "jsnum \<Rightarrow> jsnum \<Rightarrow> jsnum" where
  "minus_jsnum a b = a + (- b)"

fun times_jsnum :: "jsnum \<Rightarrow> jsnum \<Rightarrow> jsnum" where
  "times_jsnum (Num a) (Num b) = Num (a * b)"
| "times_jsnum NaN _ = NaN"
| "times_jsnum _ NaN = NaN"
| "times_jsnum PInf (Num b) = (if b = 0 then NaN else if 0 < b then PInf else NInf)"
| "times_jsnum NInf (Num b) = (if b = 0 then NaN else if 0 < b then NInf else PInf)"
| "times_jsnum (Num a) PInf = (if a = 0 then NaN else if 0 < a then PInf else NInf)"
| "times_jsnum (Num a) NInf = (if a = 0 then NaN else if 0 < a then NInf else PInf)"
| "times_jsnum PInf PInf = PInf"
| "times_jsnum NInf NInf = PInf"
| "times_jsnum PInf NInf = NInf"
| "times_jsnum NInf PInf = NInf"

fun divide_jsnum :: "jsnum \<Rightarrow> jsnum \<Rightarrow> jsnum" where
  "divide_jsnum (Num a) (Num b) =
     (if b = 0 then (if a = 0 then NaN else if 0 < a then PInf else NInf)
      else Num (a / b))"
| "divide_jsnum NaN _ = NaN"
| "divide_jsnum _ NaN = NaN"
| "divide_jsnum (Num a) PInf = Num 0"
| "divide_jsnum (Num a) NInf = Num 0"
| "divide_jsnum PInf (Num b) = (if 0 \<le> b then PInf else NInf)"
| "divide_jsnum NInf (Num b) = (if 0 \<le> b then NInf else PInf)"
| "divide_jsnum PInf PInf = NaN"
| "divide_jsnum PInf NInf = NaN"
| "divide_jsnum NInf PInf = NaN"
| "divide_jsnum NInf NInf = NaN"

definition inverse_jsnum :: "jsnum \<Rightarrow> jsnum" where
  "inverse_jsnum a = divide (Num 1) a"

fun less_jsnum :: "jsnum \<Rightarrow> jsnum \<Rightarrow> bool" where
  "less_jsnum (Num a) (Num b) = (a < b)"
| "less_jsnum NaN _ = False"
| "less_jsnum _ NaN = False"
| "less_jsnum _ NInf = False"
| "less_jsnum PInf _ = False"
| "less_jsnum NInf _ = True"
| "less_jsnum _ PInf = True"

fun less_eq_jsnum :: "jsnum \<Rightarrow> jsnum \<Rightarrow> bool" where
  "less_eq_jsnum (Num a) (Num b) = (a \<le> b)"
| "less_eq_jsnum NaN _ = False"
| "less_eq_jsnum _ NaN = False"
| "less_eq_jsnum NInf _ = True"
| "less_eq_jsnum _ PInf = True"
| "less_eq_jsnum _ NInf = False"
| "less_eq_jsnum PInf _ = False"

instance ..

end

text \<open>Strict equality \<open>===\<close> on numbers: \<open>NaN\<close> is not equal to itself.\<close>

definition js_seq :: "jsnum \<Rightarrow> jsnum \<Rightarrow> bool" where
  "js_seq a b = (a \<noteq> NaN \<and> a = b)"

text \<open>The functions of \<open>Math\<close> that the easing library calls.\<close>

fun Math_sin :: "jsnum \<Rightarrow> jsnum" where
  "Math_sin (Num a) = Num (sin a)"
| "Math_sin _ = NaN"

fun Math_cos :: "jsnum \<Rightarrow> jsnum" where
  "Math_cos (Num a) = Num (cos a)"
| "Math_cos _ = NaN"

fun Math_sqrt :: "jsnum \<Rightarrow> jsnum" where
  "Math_sqrt (Num a) = (if a < 0 then NaN else Num (sqrt a))"
| "Math_sqrt PInf = PInf"
| "Math_sqrt _ = NaN"

text \<open>\<open>Math.pow(2, x)\<close>, the only use of \<open>Math.pow\<close> in the library.\<close>

fun Math_pow2 :: "jsnum \<Rightarrow> jsnum" where
  "Math_pow2 (Num a) = Num (2 powr a)"
| "Math_pow2 PInf = PInf"
| "Math_pow2 NInf = Num 0"
| "Math_pow2 NaN = NaN"

definition Math_PI :: jsnum where
  "Math_PI = Num pi"

section \<open>Easing library\<close>

text \<open>
  Class \<open>Easing\<close>.  Each static member is a function from a number to a number.
  A pre-decrement \<open>(--t)\<close> at the head of an expression is a \<open>let\<close> that rebinds
  \<open>t\<close> for the rest of it, as JavaScript evaluates the operands left to right.
\<close>

definition linear :: "jsnum \<Rightarrow> jsnum" where
  "linear t = t"

definition easeInQuad :: "jsnum \<Rightarrow> jsnum" where
  "easeInQuad t = t * t"

definition easeOutQuad :: "jsnum \<Rightarrow> jsnum" where
  "easeOutQuad t = t * (Num 2 - t)"

definition easeInOutQuad :: "jsnum \<Rightarrow> jsnum" where
  "easeInOutQuad t =
     (if t < Num 0.5 then Num 2 * t * t else Num (- 1) + (Num 4 - Num 2 * t) * t)"

definition easeInCubic :: "jsnum \<Rightarrow> jsnum" where
  "easeInCubic t = t * t * t"

definition easeOutCubic :: "jsnum \<Rightarrow> jsnum" where
  "easeOutCubic t0 = (let t = t0 - Num 1 in t * t * t + Num 1)"

definition easeInOutCubic :: "jsnum \<Rightarrow> jsnum" where
  "easeInOutCubic t =
     (if t < Num 0.5 then Num 4 * t * t * t
      else (t - Num 1) * (Num 2 * t - Num 2) * (Num 2 * t - Num 2) + Num 1)"

definition easeInQuart :: "jsnum \<Rightarrow> jsnum" where
  "easeInQuart t = t * t * t * t"

definition easeOutQuart :: "jsnum \<Rightarrow> jsnum" where
  "easeOutQuart t0 = (let t = t0 - Num 1 in Num 1 - t * t * t * t)"

definition easeInOutQuart :: "jsnum \<Rightarrow> jsnum" where
  "easeInOutQuart t0 =
     (if t0 < Num 0.5 then Num 8 * t0 * t0 * t0 * t0
      else (let t = t0 - Num 1 in Num 1 - Num 8 * t * t * t * t))"

definition easeInQuint :: "jsnum \<Rightarrow> jsnum" where
  "easeInQuint t = t * t * t * t * t"

definition easeOutQuint :: "jsnum \<Rightarrow> jsnum" where
  "easeOutQuint t0 = (let t = t0 - Num 1 in Num 1 + t * t * t * t * t)"

definition easeInOutQuint :: "jsnum \<Rightarrow> jsnum" where
  "easeInOutQuint t0 =
     (if t0 < Num 0.5 then Num 16 * t0 * t0 * t0 * t0 * t0
      else (let t = t0 - Num 1 in Num 1 + Num 16 * t * t * t * t * t))"

definition easeInSine :: "jsnum \<Rightarrow> jsnum" where
  "easeInSine t = Num 1 - Math_cos (t * Math_PI / Num 2)"

definition easeOutSine :: "jsnum \<Rightarrow> jsnum" where
  "easeOutSine t = Math_sin (t * Math_PI / Num 2)"

definition easeInOutSine :: "jsnum \<Rightarrow> jsnum" where
  "easeInOutSine t = - (Math_cos (Math_PI * t) - Num 1) / Num 2"

definition easeInExpo :: "jsnum \<Rightarrow> jsnum" where
  "easeInExpo t = (if js_seq t (Num 0) then Num 0 else Math_pow2 (Num 10 * (t - Num 1)))"

definition easeOutExpo :: "jsnum \<Rightarrow> jsnum" where
  "easeOutExpo t = (if js_seq t (Num 1) then Num 1 else - Math_pow2 (Num (- 10) * t) + Num 1)"

definition easeInOutExpo :: "jsnum \<Rightarrow> jsnum" where
  "easeInOutExpo t =
     (if js_seq t (Num 0) then Num 0
      else if js_seq t (Num 1) then Num 1
      else if t < Num 0.5 then Math_pow2 (Num 10 * (Num 2 * t - Num 1)) / Num 2
      else (- Math_pow2 (Num (- 10) * (Num 2 * t - Num 1)) + Num 2) / Num 2)"

definition easeInCirc :: "jsnum \<Rightarrow> jsnum" where
  "easeInCirc t = Num 1 - Math_sqrt (Num 1 - t * t)"

definition easeOutCirc :: "jsnum \<Rightarrow> jsnum" where
  "easeOutCirc t0 = (let t = t0 - Num 1 in Math_sqrt (Num 1 - t * t))"

definition easeInOutCirc :: "jsnum \<Rightarrow> jsnum" where
  "easeInOutCirc t0 =
     (let t = t0 * Num 2 in
      if t < Num 1 then Num (- 0.5) * (Math_sqrt (Num 1 - t * t) - Num 1)
      else (let u = t - Num 2 in Num 0.5 * (Math_sqrt (Num 1 - u * u) + Num 1)))"

definition easeInElastic :: "jsnum \<Rightarrow> jsnum" where
  "easeInElastic t =
     (if js_seq t (Num 0) then Num 0
      else if js_seq t (Num 1) then Num 1
      else - Math_pow2 (Num 10 * (t - Num 1)) * Math_sin ((t - Num 1.1) * Num 5 * Math_PI))"

definition easeOutElastic :: "jsnum \<Rightarrow> jsnum" where
  "easeOutElastic t =
     (if js_seq t (Num 0) then Num 0
      else if js_seq t (Num 1) then Num 1
      else Math_pow2 (Num (- 10) * t) * Math_sin ((t - Num 0.1) * Num 5 * Math_PI) + Num 1)"

definition easeInOutElastic :: "jsnum \<Rightarrow> jsnum" where
  "easeInOutElastic t0 =
     (if js_seq t0 (Num 0) then Num 0
      else if js_seq t0 (Num 1) then Num 1
      else (let t = t0 * Num 2 in
        if t < Num 1
        then Num (- 0.5) * Math_pow2 (Num 10 * (t - Num 1))
               * Math_sin ((t - Num 1.1) * Num 5 * Math_PI)
        else Num 0.5 * Math_pow2 (Num (- 10) * (t - Num 1))
               * Math_sin ((t - Num 1.1) * Num 5 * Math_PI) + Num 1))"

definition easeInBack :: "jsnum \<Rightarrow> jsnum" where
  "easeInBack t = (let s = Num 1.70158 in t * t * ((s + Num 1) * t - s))"

definition easeOutBack :: "jsnum \<Rightarrow> jsnum" where
  "easeOutBack t0 =
     (let s = Num 1.70158; t = t0 - Num 1 in t * t * ((s + Num 1) * t + s) + Num 1)"

definition easeInOutBack :: "jsnum \<Rightarrow> jsnum" where
  "easeInOutBack t0 =
     (let s = Num 1.70158 * Num 1.525; t = t0 * Num 2 in
      if t < Num 1 then Num 0.5 * (t * t * ((s + Num 1) * t - s))
      else (let u = t - Num 2 in Num 0.5 * (u * u * ((s + Num 1) * u + s) + Num 2)))"

definition easeOutBounce :: "jsnum \<Rightarrow> jsnum" where
  "easeOutBounce t0 =
     (if t0 < Num 1 / Num 2.75 then Num 7.5625 * t0 * t0
      else if t0 < Num 2 / Num 2.75
        then (let t = t0 - Num 1.5 / Num 2.75 in Num 7.5625 * t * t + Num 0.75)
      else if t0 < Num 2.5 / Num 2.75
        then (let t = t0 - Num 2.25 / Num 2.75 in Num 7.5625 * t * t + Num 0.9375)
      else (let t = t0 - Num 2.625 / Num 2.75 in Num 7.5625 * t * t + Num 0.984375))"

definition easeInBounce :: "jsnum \<Rightarrow> jsnum" where
  "easeInBounce t = Num 1 - easeOutBounce (Num 1 - t)"

definition easeInOutBounce :: "jsnum \<Rightarrow> jsnum" where
  "easeInOutBounce t =
     (if t < Num 0.5 then easeInBounce (t * Num 2) * Num 0.5
      else easeOutBounce (t * Num 2 - Num 1) * Num 0.5 + Num 0.5)"

text \<open>
  \<open>Easing.getEasingFunction\<close>: the table \<open>easingMap\<close>, and \<open>linear\<close> for a name it
  does not hold.  (The table is an object literal; the members it inherits from
  \<open>Object.prototype\<close> are not modelled.)
\<close>

definition easingMap :: "(string \<times> (jsnum \<Rightarrow> jsnum)) list" where
  "easingMap =
    [(''linear'', linear),
     (''ease-in'', easeInQuad), (''ease-out'', easeOutQuad), (''ease-in-out'', easeInOutQuad),
     (''ease-in-quad'', easeInQuad), (''ease-out-quad'', easeOutQuad),
     (''ease-in-out-quad'', easeInOutQuad),
     (''ease-in-cubic'', easeInCubic), (''ease-out-cubic'', easeOutCubic),
     (''ease-in-out-cubic'', easeInOutCubic),
     (''ease-in-quart'', easeInQuart), (''ease-out-quart'', easeOutQuart),
     (''ease-in-out-quart'', easeInOutQuart),
     (''ease-in-quint'', easeInQuint), (''ease-out-quint'', easeOutQuint),
     (''ease-in-out-quint'', easeInOutQuint),
     (''ease-in-sine'', easeInSine), (''ease-out-sine'', easeOutSine),
     (''ease-in-out-sine'', easeInOutSine),
     (''ease-in-expo'', easeInExpo), (''ease-out-expo'', easeOutExpo),
     (''ease-in-out-expo'', easeInOutExpo),
     (''ease-in-circ'', easeInCirc), (''ease-out-circ'', easeOutCirc),
     (''ease-in-out-circ'', easeInOutCirc),
     (''ease-in-elastic'', easeInElastic), (''ease-out-elastic'', easeOutElastic),
     (''ease-in-out-elastic'', easeInOutElastic),
     (''ease-in-back'', easeInBack), (''ease-out-back'', easeOutBack),
     (''ease-in-out-back'', easeInOutBack),
     (''ease-in-bounce'', easeInBounce), (''ease-out-bounce'', easeOutBounce),
     (''ease-in-out-bounce'', easeInOutBounce)]"

definition getEasingFunction :: "string \<Rightarrow> (jsnum \<Rightarrow> jsnum)" where
  "getEasingFunction name = (case map_of easingMap name of Some f \<Rightarrow> f | None \<Rightarrow> linear)"

section \<open>Values and property maps\<close>

text \<open>
  \<open>Element.properties\<close> is an open map from names to values of any JSON shape, and a
  keyframe's \<open>value\<close> is such a value too.  An object is the list of its own
  properties in insertion order (inherited members of \<open>Object.prototype\<close> are not
  modelled); \<open>VUndef\<close> is \<open>undefined\<close>.
\<close>

datatype jsval =
    VNum jsnum
  | VStr string
  | VBool bool
  | VNull
  | VUndef
  | VArr "jsval list"
  | VObj "(string \<times> jsval) list"

text \<open>
  The exceptions the interpolator can raise.  \<open>Unsupported\<close> marks the few operations
  on arrays (a write to \<open>length\<close>, to a non-index key or beyond the end) whose result
  is not a value of \<open>jsval\<close>; the model stops there instead of inventing one.
\<close>

datatype error = TypeError | Unsupported

text \<open>Truthiness, as used by \<open>||\<close> and \<open>if\<close>.\<close>

fun truthy :: "jsval \<Rightarrow> bool" where
  "truthy (VNum n) = (n \<noteq> NaN \<and> n \<noteq> Num 0)"
| "truthy (VStr s) = (s \<noteq> [])"
| "truthy (VBool b) = b"
| "truthy VNull = False"
| "truthy VUndef = False"
| "truthy (VArr _) = True"
| "truthy (VObj _) = True"

text \<open>\<open>obj[k] = v\<close> on the property list: an existing key keeps its place.\<close>

fun obj_set :: "(string \<times> jsval) list \<Rightarrow> string \<Rightarrow> jsval \<Rightarrow> (string \<times> jsval) list" where
  "obj_set [] k v = [(k, v)]"
| "obj_set ((k', v') # fs) k v = (if k' = k then (k, v) # fs else (k', v') # obj_set fs k v)"

text \<open>\<open>String.prototype.split\<close> with a one-character separator.\<close>

fun split_on :: "char \<Rightarrow> string \<Rightarrow> string list" where
  "split_on c [] = [[]]"
| "split_on c (x # xs) =
     (if x = c then [] # split_on c xs
      else (case split_on c xs of p # ps \<Rightarrow> (x # p) # ps | [] \<Rightarrow> [[x]]))"

text \<open>Decimal digits, and the canonical array indices \<open>"0"\<close>, \<open>"1"\<close>, \<open>"2"\<close>, ...\<close>

definition digit_val :: "char \<Rightarrow> nat option" where
  "digit_val c = map_of
     [(CHR ''0'', 0), (CHR ''1'', 1), (CHR ''2'', 2), (CHR ''3'', 3), (CHR ''4'', 4),
      (CHR ''5'', 5), (CHR ''6'', 6), (CHR ''7'', 7), (CHR ''8'', 8), (CHR ''9'', 9)] c"

fun digits_val :: "nat \<Rightarrow> string \<Rightarrow> nat option" where
  "digits_val acc [] = Some acc"
| "digits_val acc (c # cs) =
     (case digit_val c of None \<Rightarrow> None | Some d \<Rightarrow> digits_val (10 * acc + d) cs)"

definition parse_index :: "string \<Rightarrow> nat option" where
  "parse_index s =
     (if s = [] then None
      else if hd s = CHR ''0'' \<and> tl s \<noteq> [] then None
      else digits_val 0 s)"

definition digit_char :: "nat \<Rightarrow> char" where
  "digit_char d = ''0123456789abcdef'' ! d"

text \<open>Number-to-string conversion of an integer, as in a template literal.\<close>

fun show_nat :: "nat \<Rightarrow> string" where
  "show_nat n = (if n < 10 then [digit_char n] else show_nat (n div 10) @ [digit_char (n mod 10)])"

definition show_int :: "int \<Rightarrow> string" where
  "show_int i = (if i < 0 then CHR ''-'' # show_nat (nat (- i)) else show_nat (nat i))"

subsection \<open>Dotted property paths\<close>

text \<open>
  \<open>getNestedProperty\<close>.  The loop returns \<open>undefined\<close> at \<open>null\<close>, at \<open>undefined\<close> and
  at a missing key; the \<open>in\<close> operator raises a \<open>TypeError\<close> when \<open>current\<close> is a
  number, a string or a boolean.
\<close>

fun getNested :: "jsval \<Rightarrow> string list \<Rightarrow> error + jsval" where
  "getNested cur [] = Inr cur"
| "getNested cur (p # ps) =
     (case cur of
        VNull \<Rightarrow> Inr VUndef
      | VUndef \<Rightarrow> Inr VUndef
      | VObj fs \<Rightarrow> (case map_of fs p of None \<Rightarrow> Inr VUndef | Some v \<Rightarrow> getNested v ps)
      | VArr xs \<Rightarrow>
          (if p = ''length'' then getNested (VNum (Num (real (length xs)))) ps
           else (case parse_index p of
                   None \<Rightarrow> Inr VUndef
                 | Some i \<Rightarrow> if i < length xs then getNested (xs ! i) ps else Inr VUndef))
      | _ \<Rightarrow> Inl TypeError)"

definition getNestedProperty :: "jsval \<Rightarrow> string \<Rightarrow> error + jsval" where
  "getNestedProperty obj path = getNested obj (split_on CHR ''.'' path)"

text \<open>
  The final assignment \<open>current[last] = value\<close> of \<open>setNestedProperty\<close>.  The modules
  are strict code: assigning a property of \<open>null\<close>, \<open>undefined\<close> or a primitive
  raises a \<open>TypeError\<close>.
\<close>

fun assignProp :: "jsval \<Rightarrow> string \<Rightarrow> jsval \<Rightarrow> error + jsval" where
  "assignProp (VObj fs) p v = Inr (VObj (obj_set fs p v))"
| "assignProp (VArr xs) p v =
     (case parse_index p of
        None \<Rightarrow> Inl Unsupported
      | Some i \<Rightarrow>
          if i < length xs then Inr (VArr (xs[i := v]))
          else if i = length xs then Inr (VArr (xs @ [v]))
          else Inl Unsupported)"
| "assignProp _ p v = Inl TypeError"

text \<open>
  \<open>setNestedProperty\<close>, returning the updated object.  A missing intermediate key is
  created as an empty object.  An exception leaves the object as it was: the loop
  writes only where the key was missing, and below a fresh empty object nothing raises.
\<close>

fun setNested :: "jsval \<Rightarrow> string list \<Rightarrow> jsval \<Rightarrow> error + jsval" where
  "setNested cur [] v = Inr cur"
| "setNested cur [p] v = assignProp cur p v"
| "setNested cur (p # q # ps) v =
     (case cur of
        VObj fs \<Rightarrow>
          (case map_of fs p of
             None \<Rightarrow>
               (case setNested (VObj []) (q # ps) v of
                  Inl e \<Rightarrow> Inl e
                | Inr c \<Rightarrow> Inr (VObj (fs @ [(p, c)])))
           | Some c0 \<Rightarrow>
               (case setNested c0 (q # ps) v of
                  Inl e \<Rightarrow> Inl e
                | Inr c \<Rightarrow> Inr (VObj (obj_set fs p c))))
      | VArr xs \<Rightarrow>
          (if p = ''length'' then Inl TypeError
           else (case parse_index p of
                   None \<Rightarrow> Inl Unsupported
                 | Some i \<Rightarrow>
                     if i < length xs then
                       (case setNested (xs ! i) (q # ps) v of
                          Inl e \<Rightarrow> Inl e
                        | Inr c \<Rightarrow> Inr (VArr (xs[i := c])))
                     else if i = length xs then
                       (case setNested (VObj []) (q # ps) v of
                          Inl e \<Rightarrow> Inl e
                        | Inr c \<Rightarrow> Inr (VArr (xs @ [c])))
                     else Inl Unsupported))
      | _ \<Rightarrow> Inl TypeError)"

definition setNestedProperty :: "jsval \<Rightarrow> string \<Rightarrow> jsval \<Rightarrow> error + jsval" where
  "setNestedProperty obj path v = setNested obj (split_on CHR ''.'' path) v"

subsection \<open>The deep copy \<open>JSON.parse(JSON.stringify(x))\<close>\<close>

text \<open>
  \<open>NaN\<close> and the infinities are written as \<open>null\<close>; a property whose value is
  \<open>undefined\<close> is dropped from an object, and \<open>undefined\<close> in an array becomes
  \<open>null\<close>.
\<close>

fun jsonClone :: "jsval \<Rightarrow> jsval"
  and jsonCloneItems :: "jsval list \<Rightarrow> jsval list"
  and jsonCloneFields :: "(string \<times> jsval) list \<Rightarrow> (string \<times> jsval) list" where
  "jsonClone (VNum (Num r)) = VNum (Num r)"
| "jsonClone (VNum NaN) = VNull"
| "jsonClone (VNum PInf) = VNull"
| "jsonClone (VNum NInf) = VNull"
| "jsonClone (VStr s) = VStr s"
| "jsonClone (VBool b) = VBool b"
| "jsonClone VNull = VNull"
| "jsonClone VUndef = VUndef"
| "jsonClone (VArr xs) = VArr (jsonCloneItems xs)"
| "jsonClone (VObj fs) = VObj (jsonCloneFields fs)"
| "jsonCloneItems [] = []"
| "jsonCloneItems (x # xs) =
     (if x = VUndef then VNull else jsonClone x) # jsonCloneItems xs"
| "jsonCloneFields [] = []"
| "jsonCloneFields ((k, v) # fs) =
     (if v = VUndef then jsonCloneFields fs else (k, jsonClone v) # jsonCloneFields fs)"

subsection \<open>Colour interpolation\<close>

definition hex_val :: "char \<Rightarrow> nat option" where
  "hex_val c = map_of
     [(CHR ''0'', 0), (CHR ''1'', 1), (CHR ''2'', 2), (CHR ''3'', 3), (CHR ''4'', 4),
      (CHR ''5'', 5), (CHR ''6'', 6), (CHR ''7'', 7), (CHR ''8'', 8), (CHR ''9'', 9),
      (CHR ''a'', 10), (CHR ''b'', 11), (CHR ''c'', 12), (CHR ''d'', 13), (CHR ''e'', 14),
      (CHR ''f'', 15),
      (CHR ''A'', 10), (CHR ''B'', 11), (CHR ''C'', 12), (CHR ''D'', 13), (CHR ''E'', 14),
      (CHR ''F'', 15)] c"

definition js_whitespace :: "char \<Rightarrow> bool" where
  "js_whitespace c =
     (c = CHR '' '' \<or> c = CHR 0x09 \<or> c = CHR 0x0A \<or> c = CHR 0x0B \<or> c = CHR 0x0C \<or> c = CHR 0x0D)"

fun hex_digits_val :: "nat \<Rightarrow> string \<Rightarrow> nat" where
  "hex_digits_val acc [] = acc"
| "hex_digits_val acc (c # cs) =
     (case hex_val c of None \<Rightarrow> acc | Some d \<Rightarrow> hex_digits_val (16 * acc + d) cs)"

text \<open>
  \<open>parseInt(s, 16)\<close>: leading white space, a sign, an optional \<open>0x\<close>, then the longest
  run of hexadecimal digits; \<open>NaN\<close> when that run is empty.
\<close>

definition parseInt16 :: "string \<Rightarrow> jsnum" where
  "parseInt16 s =
     (let s1 = dropWhile js_whitespace s;
          neg = (s1 \<noteq> [] \<and> hd s1 = CHR ''-'');
          s2 = (if s1 \<noteq> [] \<and> (hd s1 = CHR ''-'' \<or> hd s1 = CHR ''+'') then tl s1 else s1);
          s3 = (if take 2 s2 = ''0x'' \<or> take 2 s2 = ''0X'' then drop 2 s2 else s2)
      in if s3 = [] \<or> hex_val (hd s3) = None then NaN
         else if neg then Num (- real (hex_digits_val 0 s3))
         else Num (real (hex_digits_val 0 s3)))"

definition parseColor :: "string \<Rightarrow> jsnum list" where
  "parseColor hex0 =
     (let hex = remove1 CHR ''#'' hex0 in
      if length hex = 3
      then [parseInt16 [hex ! 0, hex ! 0], parseInt16 [hex ! 1, hex ! 1],
            parseInt16 [hex ! 2, hex ! 2]]
      else [parseInt16 (take 2 hex), parseInt16 (take 2 (drop 2 hex)),
            parseInt16 (take 2 (drop 4 hex))])"

fun Math_round :: "jsnum \<Rightarrow> jsnum" where
  "Math_round (Num r) = Num (of_int \<lfloor>r + 1 / 2\<rfloor>)"
| "Math_round n = n"

definition Math_min :: "jsnum \<Rightarrow> jsnum \<Rightarrow> jsnum" where
  "Math_min a b = (if a = NaN \<or> b = NaN then NaN else if a < b then a else b)"

definition Math_max :: "jsnum \<Rightarrow> jsnum \<Rightarrow> jsnum" where
  "Math_max a b = (if a = NaN \<or> b = NaN then NaN else if a < b then b else a)"

text \<open>
  \<open>c.toString(16).padStart(2, '0')\<close> for a clamped channel: \<open>c\<close> is \<open>NaN\<close> or an
  integer between 0 and 255.
\<close>

fun channelHex :: "jsnum \<Rightarrow> string" where
  "channelHex (Num r) =
     (let n = nat \<lfloor>r\<rfloor> in
      if n < 16 then [CHR ''0'', digit_char n] else [digit_char (n div 16), digit_char (n mod 16)])"
| "channelHex NaN = ''NaN''"
| "channelHex PInf = ''Infinity''"
| "channelHex NInf = ''-Infinity''"

definition interpolateChannel :: "jsnum \<Rightarrow> jsnum \<Rightarrow> jsnum \<Rightarrow> jsnum" where
  "interpolateChannel component target progress =
     Math_max (Num 0) (Math_min (Num 255) (Math_round (component + (target - component) * progress)))"

definition interpolateColor :: "string \<Rightarrow> string \<Rightarrow> jsnum \<Rightarrow> string" where
  "interpolateColor color1 color2 progress =
     CHR ''#'' # concat (map channelHex
       (map (\<lambda>(component, target). interpolateChannel component target progress)
            (zip (parseColor color1) (parseColor color2))))"

section \<open>Timeline\<close>

text \<open>
  The declarative data of \<open>@flare/shared\<close>.  Frame numbers of the clock, of frames,
  of groups and of triggers are integers; a keyframe's \<open>frame\<close> is a real number,
  because the delay a \<open>SEQUENCE\<close> group synthesises is a quotient.  An optional member
  is an \<open>option\<close>.  \<open>Element.children\<close> is omitted: the engine only copies it.
\<close>

record Keyframe =
  kf_frame :: real
  kf_value :: jsval
  kf_easing :: string

record PropertyAnimation =
  property :: string
  keyframes :: "Keyframe list"

record Element =
  el_id :: string
  el_type :: string
  properties :: jsval
  animations :: "PropertyAnimation list option"

record Frame =
  fr_startFrame :: int
  fr_duration :: int
  elements :: "Element list"

record Layer =
  layer_id :: string
  visible :: bool
  locked :: bool
  frames :: "Frame list"

record Timeline =
  frameRate :: int
  tl_duration :: int
  layers :: "Layer list"

section \<open>Property interpolator\<close>

text \<open>The deep copy of an element: every value in it goes through JSON.\<close>

definition cloneKeyframe :: "Keyframe \<Rightarrow> Keyframe" where
  "cloneKeyframe k = k\<lparr>kf_value := jsonClone (kf_value k)\<rparr>"

definition cloneAnimation :: "PropertyAnimation \<Rightarrow> PropertyAnimation" where
  "cloneAnimation a = a\<lparr>keyframes := map cloneKeyframe (keyframes a)\<rparr>"

definition cloneElement :: "Element \<Rightarrow> Element" where
  "cloneElement e =
     e\<lparr>properties := jsonClone (properties e),
       animations := map_option (map cloneAnimation) (animations e)\<rparr>"

text \<open>
  The search loop of \<open>applyAnimations\<close>: the first adjacent pair of keyframes whose
  absolute frames enclose the current frame, both ends included.
\<close>

fun findKeyframes :: "int \<Rightarrow> int \<Rightarrow> Keyframe list \<Rightarrow> (Keyframe \<times> Keyframe) option" where
  "findKeyframes cur start (k1 # k2 # ks) =
     (if real_of_int start + kf_frame k1 \<le> real_of_int cur
         \<and> real_of_int cur \<le> real_of_int start + kf_frame k2
      then Some (k1, k2)
      else findKeyframes cur start (k2 # ks))"
| "findKeyframes cur start _ = None"

text \<open>
  \<open>progress\<close> is a JavaScript division: it is \<open>NaN\<close> when the two keyframes share
  their frame.
\<close>

definition progressOf :: "int \<Rightarrow> int \<Rightarrow> Keyframe \<Rightarrow> Keyframe \<Rightarrow> jsnum" where
  "progressOf cur start k1 k2 =
     Num (real_of_int cur - (real_of_int start + kf_frame k1))
       / Num ((real_of_int start + kf_frame k2) - (real_of_int start + kf_frame k1))"

definition easedProgressOf :: "int \<Rightarrow> int \<Rightarrow> Keyframe \<Rightarrow> Keyframe \<Rightarrow> jsnum" where
  "easedProgressOf cur start k1 k2 =
     getEasingFunction (if kf_easing k1 = [] then ''linear'' else kf_easing k1)
       (progressOf cur start k1 k2)"

definition startsWithHash :: "string \<Rightarrow> bool" where
  "startsWithHash s = (s \<noteq> [] \<and> hd s = CHR ''#'')"

fun interpolateItem :: "jsnum \<Rightarrow> jsval \<times> jsval \<Rightarrow> jsval" where
  "interpolateItem p (VNum s, VNum e) = VNum (s + (e - s) * p)"
| "interpolateItem p (_, e) = e"

text \<open>
  The value written for a pair of keyframe values, or \<open>None\<close> when the pair is of no
  interpolated kind and the property is left alone.
\<close>

fun interpolateValue :: "jsnum \<Rightarrow> jsval \<Rightarrow> jsval \<Rightarrow> jsval option" where
  "interpolateValue p (VNum s) (VNum e) = Some (VNum (s + (e - s) * p))"
| "interpolateValue p (VStr s) (VStr e) =
     (if startsWithHash s \<and> startsWithHash e then Some (VStr (interpolateColor s e p)) else None)"
| "interpolateValue p (VArr xs) (VArr ys) =
     (if length xs = length ys then Some (VArr (map (interpolateItem p) (zip xs ys))) else None)"
| "interpolateValue p _ _ = None"

text \<open>One animation applied to the properties of the copy.\<close>

definition applyAnimation :: "int \<Rightarrow> int \<Rightarrow> PropertyAnimation \<Rightarrow> jsval \<Rightarrow> error + jsval" where
  "applyAnimation cur start animation props =
     (case findKeyframes cur start (keyframes animation) of
        None \<Rightarrow> Inr props
      | Some (k1, k2) \<Rightarrow>
          (case interpolateValue (easedProgressOf cur start k1 k2) (kf_value k1) (kf_value k2) of
             None \<Rightarrow> Inr props
           | Some v \<Rightarrow> setNestedProperty props (property animation) v))"

fun applyAnimationList :: "int \<Rightarrow> int \<Rightarrow> PropertyAnimation list \<Rightarrow> jsval \<Rightarrow> error + jsval" where
  "applyAnimationList cur start [] props = Inr props"
| "applyAnimationList cur start (a # as) props =
     (case applyAnimation cur start a props of
        Inl e \<Rightarrow> Inl e
      | Inr props' \<Rightarrow> applyAnimationList cur start as props')"

text \<open>The callback of \<open>elements.map\<close> in \<open>applyAnimations\<close>.\<close>

definition animateElement :: "int \<Rightarrow> int \<Rightarrow> Element \<Rightarrow> error + Element" where
  "animateElement cur start element =
     (let animatedElement = cloneElement element in
      case animations element of
        None \<Rightarrow> Inr animatedElement
      | Some anims \<Rightarrow>
          (case applyAnimationList cur start anims (properties animatedElement) of
             Inl e \<Rightarrow> Inl e
           | Inr props \<Rightarrow> Inr (animatedElement\<lparr>properties := props\<rparr>)))"

fun mapResult :: "('a \<Rightarrow> error + 'b) \<Rightarrow> 'a list \<Rightarrow> error + 'b list" where
  "mapResult f [] = Inr []"
| "mapResult f (x # xs) =
     (case f x of
        Inl e \<Rightarrow> Inl e
      | Inr y \<Rightarrow> (case mapResult f xs of Inl e \<Rightarrow> Inl e | Inr ys \<Rightarrow> Inr (y # ys)))"

definition applyAnimations :: "int \<Rightarrow> Element list \<Rightarrow> Frame \<Rightarrow> error + Element list" where
  "applyAnimations cur elems frame = mapResult (animateElement cur (fr_startFrame frame)) elems"

text \<open>\<open>findActiveFrame\<close>: the first frame of the layer whose span holds the current frame.\<close>

fun findActiveFrame :: "int \<Rightarrow> Frame list \<Rightarrow> Frame option" where
  "findActiveFrame cur [] = None"
| "findActiveFrame cur (f # fs) =
     (if fr_startFrame f \<le> cur \<and> cur < fr_startFrame f + fr_duration f then Some f
      else findActiveFrame cur fs)"

section \<open>Paths\<close>

text \<open>
  The path commands of the path module.  A coordinate is a number or absent
  (\<open>undefined\<close>), which \<open>parseSVGPath\<close> produces when a parameter is missing.
\<close>

datatype PathCommandType = MOVE_TO | LINE_TO | CURVE_TO | QUAD_TO | ARC_TO | CLOSE

datatype AnyPathCommand =
    MoveToCommand "jsnum option" "jsnum option"
  | LineToCommand "jsnum option" "jsnum option"
  | CurveToCommand "jsnum option" "jsnum option" "jsnum option" "jsnum option"
      "jsnum option" "jsnum option"
  | QuadToCommand "jsnum option" "jsnum option" "jsnum option" "jsnum option"
  | ArcToCommand "jsnum option" "jsnum option" "jsnum option" bool bool
      "jsnum option" "jsnum option"
  | CloseCommand

fun command_type :: "AnyPathCommand \<Rightarrow> PathCommandType" where
  "command_type (MoveToCommand x y) = MOVE_TO"
| "command_type (LineToCommand x y) = LINE_TO"
| "command_type (CurveToCommand x1 y1 x2 y2 x y) = CURVE_TO"
| "command_type (QuadToCommand x1 y1 x y) = QUAD_TO"
| "command_type (ArcToCommand rx ry rotation largeArc sweep x y) = ARC_TO"
| "command_type CloseCommand = CLOSE"

record Path =
  path_id :: string
  commands :: "AnyPathCommand list"
  closed :: bool

record Point =
  pt_x :: jsnum
  pt_y :: jsnum

record PathAnimationOptions =
  pathId :: string
  startOffset :: jsnum
  endOffset :: jsnum
  orient :: bool
  alignOrigin :: "Point option"
  pa_easing :: string

record PathAnimation =
  pa_elementId :: string
  pa_startFrame :: int
  pa_duration :: int
  options :: PathAnimationOptions

subsection \<open>\<open>parseSVGPath\<close>\<close>

text \<open>
  Strings are ASCII.  \<open>pathString.match(/([A-Za-z])([^A-Za-z]*)/g)\<close> cuts the string
  into one segment per letter: the letter and everything up to the next letter.  What
  stands before the first letter belongs to no segment.
\<close>

definition js_letter :: "char \<Rightarrow> bool" where
  "js_letter c =
     (let n = (of_char c :: nat) in (65 \<le> n \<and> n \<le> 90) \<or> (97 \<le> n \<and> n \<le> 122))"

fun matchSegments :: "string \<Rightarrow> string list" where
  "matchSegments [] = []"
| "matchSegments (c # cs) =
     (if js_letter c then (c # takeWhile (\<lambda>x. \<not> js_letter x) cs) # matchSegments cs
      else matchSegments cs)"

definition trim :: "string \<Rightarrow> string" where
  "trim s = rev (dropWhile js_whitespace (rev (dropWhile js_whitespace s)))"

text \<open>
  \<open>split(/[\s,]+/)\<close>: the pieces between maximal runs of white space and commas; a run
  at either end leaves an empty piece there.
\<close>

definition js_separator :: "char \<Rightarrow> bool" where
  "js_separator c = (js_whitespace c \<or> c = CHR '','')"

fun splitSeparators :: "string \<Rightarrow> string list" where
  "splitSeparators [] = [[]]"
| "splitSeparators (c # cs) =
     (if js_separator c then
        (if cs \<noteq> [] \<and> js_separator (hd cs) then splitSeparators cs
         else [] # splitSeparators cs)
      else (case splitSeparators cs of p # ps \<Rightarrow> (c # p) # ps | [] \<Rightarrow> [[c]]))"

text \<open>
  \<open>parseFloat\<close> on a piece, which holds no letter: an optional sign, digits, and an
  optional point with digits; \<open>NaN\<close> when there is no digit at the start.  The value
  is the exact decimal.
\<close>

definition is_digit :: "char \<Rightarrow> bool" where
  "is_digit c = (digit_val c \<noteq> None)"

definition decimal_val :: "string \<Rightarrow> nat" where
  "decimal_val ds = (case digits_val 0 ds of None \<Rightarrow> 0 | Some n \<Rightarrow> n)"

definition parseFloat :: "string \<Rightarrow> jsnum" where
  "parseFloat s0 =
     (let s = dropWhile js_whitespace s0;
          neg = (s \<noteq> [] \<and> hd s = CHR ''-'');
          r = (if s \<noteq> [] \<and> (hd s = CHR ''-'' \<or> hd s = CHR ''+'') then tl s else s);
          ip = takeWhile is_digit r;
          r2 = drop (length ip) r;
          fp = (if r2 \<noteq> [] \<and> hd r2 = CHR ''.'' then takeWhile is_digit (tl r2) else []);
          m = real (decimal_val ip) + real (decimal_val fp) / 10 ^ length fp
      in if ip = [] \<and> fp = [] then NaN else if neg then Num (- m) else Num m)"

definition segmentParams :: "string \<Rightarrow> jsnum list" where
  "segmentParams segment = map parseFloat (splitSeparators (trim (tl segment)))"

text \<open>\<open>params[i]\<close>: \<open>undefined\<close> beyond the end of the array.\<close>

definition param :: "jsnum list \<Rightarrow> nat \<Rightarrow> jsnum option" where
  "param ps i = (if i < length ps then Some (ps ! i) else None)"

text \<open>\<open>params[i] !== 0\<close>.\<close>

definition paramNonZero :: "jsnum list \<Rightarrow> nat \<Rightarrow> bool" where
  "paramNonZero ps i = (param ps i \<noteq> Some (Num 0))"

text \<open>
  The \<open>switch\<close> on the command letter.  It has no \<open>default\<close>: any other letter,
  a lower-case one included, pushes nothing.
\<close>

definition segmentCommand :: "string \<Rightarrow> AnyPathCommand list" where
  "segmentCommand segment =
     (let command = hd segment; ps = segmentParams segment in
      if command = CHR ''M'' then [MoveToCommand (param ps 0) (param ps 1)]
      else if command = CHR ''L'' then [LineToCommand (param ps 0) (param ps 1)]
      else if command = CHR ''C'' then
        [CurveToCommand (param ps 0) (param ps 1) (param ps 2) (param ps 3) (param ps 4) (param ps 5)]
      else if command = CHR ''Q'' then
        [QuadToCommand (param ps 0) (param ps 1) (param ps 2) (param ps 3)]
      else if command = CHR ''A'' then
        [ArcToCommand (param ps 0) (param ps 1) (param ps 2) (paramNonZero ps 3) (paramNonZero ps 4)
           (param ps 5) (param ps 6)]
      else if command = CHR ''Z'' then [CloseCommand]
      else [])"

definition parseSVGPath :: "string \<Rightarrow> AnyPathCommand list" where
  "parseSVGPath pathString = concat (map segmentCommand (matchSegments pathString))"

text \<open>The command letters the \<open>switch\<close> knows, and the type each one produces.\<close>

definition commandLetters :: "(char \<times> PathCommandType) list" where
  "commandLetters =
     [(CHR ''M'', MOVE_TO), (CHR ''L'', LINE_TO), (CHR ''C'', CURVE_TO), (CHR ''Q'', QUAD_TO),
      (CHR ''A'', ARC_TO), (CHR ''Z'', CLOSE)]"

section \<open>Groups, sequences, triggers\<close>

datatype AnimationGroupType = PARALLEL | SEQUENCE | STAGGER

record AnimationGroup =
  grp_id :: string
  grp_type :: AnimationGroupType
  elementIds :: "string list"
  grp_properties :: "string list"
  grp_startFrame :: int
  grp_duration :: int
  staggerDelay :: "int option"
  grp_easing :: "string option"

record AnimationStep =
  groupId :: string
  waitForComplete :: bool
  onComplete :: "string option"

record AnimationSequence =
  seq_id :: string
  steps :: "AnimationStep list"
  repeat :: int
  autoPlay :: bool

text \<open>The runtime object that \<open>activeSequences\<close> holds for a sequence being played.\<close>

record ActiveSequence =
  as_sequence :: AnimationSequence
  currentStep :: nat
  iterations :: int

datatype EventTriggerType =
    FRAME_ENTER | FRAME_EXIT | RANGE_ENTER | RANGE_EXIT
  | PLAY | PAUSE | STOP | LOOP
  | CLICK | HOVER | DRAG_START | DRAG_END
  | CUSTOM

text \<open>
  \<open>parameters\<close> is of type \<open>any\<close>; the engine's own listeners read two members of it,
  \<open>frame\<close> (used when it is a number) and \<open>sequenceId\<close>.
\<close>

record Parameters =
  p_frame :: "int option"
  p_sequenceId :: "string option"

text \<open>
  The union \<open>AnyEventTrigger\<close> as one record: \<open>trig_frame\<close> is read for the two frame
  types only, \<open>trig_startFrame\<close> and \<open>trig_endFrame\<close> for the two range types only.
\<close>

record EventTrigger =
  trig_id :: string
  trig_type :: EventTriggerType
  action :: string
  parameters :: "Parameters option"
  trig_frame :: int
  trig_startFrame :: int
  trig_endFrame :: int

text \<open>\<open>EventData\<close> without its \<open>timestamp\<close>, which is the wall clock.\<close>

record EventData =
  triggerId :: string
  d_currentFrame :: "int option"
  d_previousFrame :: "int option"
  d_startFrame :: "int option"
  d_endFrame :: "int option"
  d_playbackType :: "EventTriggerType option"
  d_groupId :: "string option"
  d_sequenceId :: "string option"
  d_stepIndex :: "nat option"
  d_parameters :: "Parameters option"

definition eventData :: "string \<Rightarrow> EventData" where
  "eventData tid =
     \<lparr>triggerId = tid, d_currentFrame = None, d_previousFrame = None, d_startFrame = None,
      d_endFrame = None, d_playbackType = None, d_groupId = None, d_sequenceId = None,
      d_stepIndex = None, d_parameters = None\<rparr>"

text \<open>
  The listeners the engine can hold.  The first nine are the closures that
  \<open>setupDefaultEventActions\<close> registers.  \<open>HGroupComplete\<close> is the completion callback
  that \<open>playGroup\<close> hands to \<open>addFrameListener\<close>; it captures the group's id.
  \<open>HStepComplete\<close> is the closure \<open>onComplete\<close> of \<open>executeSequenceStep\<close>; it captures
  the sequence id, the step index, the step's \<open>onComplete\<close> name and the runtime
  object.  Both carry a number that tells two closures of the same text apart, since
  \<open>removeEventListener\<close> compares listeners by identity.  \<open>HUser\<close> is a listener of the
  embedding application: it returns, or it throws, and does not call back into the
  engine.
\<close>

datatype handler =
    HGotoFrame | HGotoAndPlay | HGotoAndStop
  | HPlay | HPause | HStop | HTogglePlay
  | HPlaySequence | HStopSequence
  | HGroupComplete nat string
  | HStepComplete nat string nat "string option" nat
  | HUser nat bool

record EventTriggerManager =
  triggers :: "EventTrigger list"
  handlers :: "string \<rightharpoonup> handler list"
  activeRangeTriggers :: "string list"
  em_currentFrame :: int
  em_previousFrame :: int

record PathManager =
  paths :: "string \<rightharpoonup> Path"
  pathAnimations :: "PathAnimation list"

section \<open>The engine\<close>

text \<open>
  The state of an \<open>AnimationEngine\<close>.  \<open>frameRequested\<close> says that a callback of
  \<open>requestAnimationFrame\<close> is pending (\<open>animationFrameId\<close> is set); \<open>lastFrameTime\<close>
  is the wall clock and is left out.  The runtime objects of the sequences live in
  \<open>runtimes\<close>, a store indexed by address, and \<open>activeSequences\<close> maps a sequence id
  to the address of its object, because a completion closure keeps the object it was
  created with even when the map has moved on.  \<open>nextId\<close> numbers the objects and
  closures.  Two fields record what an observer sees: \<open>dispatched\<close>, every call of
  \<open>dispatchEvent\<close> with its data, and \<open>console\<close>, every \<open>console.error\<close>.
\<close>

record AnimationEngine =
  timeline :: Timeline
  currentFrame :: int
  isPlaying :: bool
  frameRequested :: bool
  pathManager :: PathManager
  eventManager :: EventTriggerManager
  groups :: "string \<rightharpoonup> AnimationGroup"
  sequences :: "string \<rightharpoonup> AnimationSequence"
  activeSequences :: "string \<rightharpoonup> nat"
  runtimes :: "nat \<rightharpoonup> ActiveSequence"
  nextId :: nat
  dispatched :: "(string \<times> EventData) list"
  console :: "string list"

text \<open>
  A call returns, or throws (to the nearest \<open>try\<close>, with the state as the throw left
  it), or does not come back within the recursion depth the model was given.
\<close>

datatype outcome = Ok AnimationEngine | Throw AnimationEngine | Diverge

fun andThen :: "outcome \<Rightarrow> (AnimationEngine \<Rightarrow> outcome) \<Rightarrow> outcome" where
  "andThen (Ok s) f = f s"
| "andThen (Throw s) f = Throw s"
| "andThen Diverge f = Diverge"

text \<open>What running a listener does to the engine; the engine ties the knot below.\<close>

type_synonym runner = "handler \<Rightarrow> EventData \<Rightarrow> AnimationEngine \<Rightarrow> outcome"

subsection \<open>\<open>EventTriggerManager\<close>\<close>

definition em_update ::
  "(EventTriggerManager \<Rightarrow> EventTriggerManager) \<Rightarrow> AnimationEngine \<Rightarrow> AnimationEngine" where
  "em_update f s = s\<lparr>eventManager := f (eventManager s)\<rparr>"

definition listenersOf :: "AnimationEngine \<Rightarrow> string \<Rightarrow> handler list" where
  "listenersOf s event = (case handlers (eventManager s) event of None \<Rightarrow> [] | Some hs \<Rightarrow> hs)"

definition registerTrigger :: "EventTrigger \<Rightarrow> AnimationEngine \<Rightarrow> AnimationEngine" where
  "registerTrigger trigger s = em_update (\<lambda>em. em\<lparr>triggers := triggers em @ [trigger]\<rparr>) s"

definition addEventListener :: "string \<Rightarrow> handler \<Rightarrow> AnimationEngine \<Rightarrow> AnimationEngine" where
  "addEventListener event h s =
     em_update (\<lambda>em. em\<lparr>handlers := (handlers em)(event \<mapsto> listenersOf s event @ [h])\<rparr>) s"

text \<open>\<open>indexOf\<close> and \<open>splice\<close>: the first occurrence goes.\<close>

definition removeEventListener :: "string \<Rightarrow> handler \<Rightarrow> AnimationEngine \<Rightarrow> AnimationEngine" where
  "removeEventListener event h s =
     (case handlers (eventManager s) event of
        None \<Rightarrow> s
      | Some hs \<Rightarrow> em_update (\<lambda>em. em\<lparr>handlers := (handlers em)(event \<mapsto> remove1 h hs)\<rparr>) s)"

definition consoleError :: "string \<Rightarrow> AnimationEngine \<Rightarrow> AnimationEngine" where
  "consoleError msg s = s\<lparr>console := console s @ [msg]\<rparr>"

text \<open>
  \<open>handlers.forEach\<close> in \<open>dispatchEvent\<close>.  \<open>forEach\<close> fixes the number of indices it
  visits when it starts (\<open>m\<close> counts those still to visit) and reads the array anew at
  every index \<open>k\<close>: the array is the live list of the event, which a listener may
  lengthen or shorten while the loop runs, and an index the array no longer has is
  passed over.  An exception of the listener is caught and logged.  Beside the state,
  the loop returns the listeners it has called, in order, each with a flag that says
  whether it threw.
\<close>

primrec forEachHandler ::
  "runner \<Rightarrow> string \<Rightarrow> EventData \<Rightarrow> nat \<Rightarrow> nat \<Rightarrow> AnimationEngine
     \<Rightarrow> (AnimationEngine \<times> (handler \<times> bool) list) option" where
  "forEachHandler run event d 0 k s = Some (s, [])"
| "forEachHandler run event d (Suc m) k s =
     (let hs = listenersOf s event in
      if k < length hs then
        (case run (hs ! k) d s of
           Diverge \<Rightarrow> None
         | Ok s1 \<Rightarrow>
             map_option (\<lambda>(s2, called). (s2, (hs ! k, False) # called))
               (forEachHandler run event d m (Suc k) s1)
         | Throw s1 \<Rightarrow>
             map_option (\<lambda>(s2, called). (s2, (hs ! k, True) # called))
               (forEachHandler run event d m (Suc k)
                  (consoleError (''Error in event handler for '' @ event) s1)))
      else forEachHandler run event d m (Suc k) s)"

definition dispatchCalls ::
  "runner \<Rightarrow> string \<Rightarrow> EventData \<Rightarrow> AnimationEngine
     \<Rightarrow> (AnimationEngine \<times> (handler \<times> bool) list) option" where
  "dispatchCalls run event d s =
     (let s0 = s\<lparr>dispatched := dispatched s @ [(event, d)]\<rparr> in
      case handlers (eventManager s0) event of
        None \<Rightarrow> Some (s0, [])
      | Some hs \<Rightarrow> forEachHandler run event d (length hs) 0 s0)"

definition dispatchEvent :: "runner \<Rightarrow> string \<Rightarrow> EventData \<Rightarrow> AnimationEngine \<Rightarrow> outcome" where
  "dispatchEvent run event d s =
     (case dispatchCalls run event d s of None \<Rightarrow> Diverge | Some (s', called) \<Rightarrow> Ok s')"

definition executeTriggerAction ::
  "runner \<Rightarrow> EventTrigger \<Rightarrow> EventData \<Rightarrow> AnimationEngine \<Rightarrow> outcome" where
  "executeTriggerAction run trigger d s =
     dispatchEvent run (action trigger) (d\<lparr>d_parameters := parameters trigger\<rparr>) s"

text \<open>
  \<open>forEach\<close> over an array that \<open>filter\<close> has just built: the triggers are a snapshot,
  the frame numbers are read from the manager at every trigger.
\<close>

fun forEachTrigger ::
  "(EventTrigger \<Rightarrow> AnimationEngine \<Rightarrow> outcome) \<Rightarrow> EventTrigger list \<Rightarrow> AnimationEngine \<Rightarrow> outcome" where
  "forEachTrigger body [] s = Ok s"
| "forEachTrigger body (t # ts) s = andThen (body t s) (forEachTrigger body ts)"

definition frameData :: "EventTrigger \<Rightarrow> AnimationEngine \<Rightarrow> EventData" where
  "frameData trigger s =
     (eventData (trig_id trigger))
       \<lparr>d_currentFrame := Some (em_currentFrame (eventManager s)),
        d_previousFrame := Some (em_previousFrame (eventManager s))\<rparr>"

definition rangeData :: "EventTrigger \<Rightarrow> AnimationEngine \<Rightarrow> EventData" where
  "rangeData trigger s =
     (frameData trigger s)
       \<lparr>d_startFrame := Some (trig_startFrame trigger), d_endFrame := Some (trig_endFrame trigger)\<rparr>"

definition frameTriggerBody :: "runner \<Rightarrow> EventTrigger \<Rightarrow> AnimationEngine \<Rightarrow> outcome" where
  "frameTriggerBody run trigger s =
     (let cur = em_currentFrame (eventManager s); prev = em_previousFrame (eventManager s) in
      if trig_type trigger = FRAME_ENTER then
        (if cur = trig_frame trigger \<and> prev \<noteq> trig_frame trigger
         then executeTriggerAction run trigger (frameData trigger s) s else Ok s)
      else if trig_type trigger = FRAME_EXIT then
        (if prev = trig_frame trigger \<and> cur \<noteq> trig_frame trigger
         then executeTriggerAction run trigger (frameData trigger s) s else Ok s)
      else Ok s)"

definition checkFrameTriggers :: "runner \<Rightarrow> AnimationEngine \<Rightarrow> outcome" where
  "checkFrameTriggers run s =
     (if em_currentFrame (eventManager s) = em_previousFrame (eventManager s) then Ok s
      else forEachTrigger (frameTriggerBody run)
             (filter (\<lambda>t. trig_type t = FRAME_ENTER \<or> trig_type t = FRAME_EXIT)
                (triggers (eventManager s))) s)"

definition inRange :: "int \<Rightarrow> EventTrigger \<Rightarrow> bool" where
  "inRange f trigger = (trig_startFrame trigger \<le> f \<and> f \<le> trig_endFrame trigger)"

text \<open>\<open>Set.add\<close> and \<open>Set.delete\<close> on the set of active ids, kept in insertion order.\<close>

definition set_add :: "string \<Rightarrow> string list \<Rightarrow> string list" where
  "set_add x xs = (if x \<in> set xs then xs else xs @ [x])"

definition set_delete :: "string \<Rightarrow> string list \<Rightarrow> string list" where
  "set_delete x xs = removeAll x xs"

definition rangeEnterBody :: "runner \<Rightarrow> EventTrigger \<Rightarrow> AnimationEngine \<Rightarrow> outcome" where
  "rangeEnterBody run trigger s =
     (if trig_type trigger = RANGE_ENTER then
        (let isIn = inRange (em_currentFrame (eventManager s)) trigger;
             wasIn = inRange (em_previousFrame (eventManager s)) trigger in
         if isIn \<and> \<not> wasIn then
           (let s1 = em_update (\<lambda>em. em\<lparr>activeRangeTriggers :=
                        set_add (trig_id trigger) (activeRangeTriggers em)\<rparr>) s
            in executeTriggerAction run trigger (rangeData trigger s1) s1)
         else if \<not> isIn \<and> wasIn then
           Ok (em_update (\<lambda>em. em\<lparr>activeRangeTriggers :=
                        set_delete (trig_id trigger) (activeRangeTriggers em)\<rparr>) s)
         else Ok s)
      else Ok s)"

definition rangeExitBody :: "runner \<Rightarrow> EventTrigger \<Rightarrow> AnimationEngine \<Rightarrow> outcome" where
  "rangeExitBody run trigger s =
     (if trig_type trigger = RANGE_EXIT then
        (let isIn = inRange (em_currentFrame (eventManager s)) trigger;
             wasIn = inRange (em_previousFrame (eventManager s)) trigger in
         if \<not> isIn \<and> wasIn then
           (let s1 = em_update (\<lambda>em. em\<lparr>activeRangeTriggers :=
                        set_delete (trig_id trigger) (activeRangeTriggers em)\<rparr>) s
            in executeTriggerAction run trigger (rangeData trigger s1) s1)
         else Ok s)
      else Ok s)"

definition checkRangeTriggers :: "runner \<Rightarrow> AnimationEngine \<Rightarrow> outcome" where
  "checkRangeTriggers run s =
     (if em_currentFrame (eventManager s) = em_previousFrame (eventManager s) then Ok s
      else
        (let rangeTriggers = filter (\<lambda>t. trig_type t = RANGE_ENTER \<or> trig_type t = RANGE_EXIT)
                               (triggers (eventManager s)) in
         andThen (forEachTrigger (rangeEnterBody run) rangeTriggers s)
           (forEachTrigger (rangeExitBody run) rangeTriggers)))"

definition updateFrame :: "runner \<Rightarrow> int \<Rightarrow> AnimationEngine \<Rightarrow> outcome" where
  "updateFrame run f s =
     (let s1 = em_update (\<lambda>em. em\<lparr>em_previousFrame := em_currentFrame em,
                                    em_currentFrame := f\<rparr>) s
      in andThen (checkFrameTriggers run s1) (checkRangeTriggers run))"

definition playbackData :: "EventTriggerType \<Rightarrow> EventTrigger \<Rightarrow> AnimationEngine \<Rightarrow> EventData" where
  "playbackData ty trigger s =
     (eventData (trig_id trigger))
       \<lparr>d_currentFrame := Some (em_currentFrame (eventManager s)), d_playbackType := Some ty\<rparr>"

definition triggerPlaybackEvent :: "runner \<Rightarrow> EventTriggerType \<Rightarrow> AnimationEngine \<Rightarrow> outcome" where
  "triggerPlaybackEvent run ty s =
     forEachTrigger (\<lambda>trigger s'. executeTriggerAction run trigger (playbackData ty trigger s') s')
       (filter (\<lambda>t. trig_type t = ty) (triggers (eventManager s))) s"

definition isInRange :: "int \<Rightarrow> int \<Rightarrow> AnimationEngine \<Rightarrow> bool" where
  "isInRange startFrame endFrame s =
     (startFrame \<le> em_currentFrame (eventManager s) \<and> em_currentFrame (eventManager s) \<le> endFrame)"

definition getActiveRangeTriggers :: "AnimationEngine \<Rightarrow> string list" where
  "getActiveRangeTriggers s = activeRangeTriggers (eventManager s)"

subsection \<open>Clock\<close>

text \<open>
  \<open>play\<close> calls \<open>animationLoop\<close> once, synchronously, right after it has read the
  clock: no whole frame has elapsed, so that call only requests the next animation
  frame.  The later calls of \<open>animationLoop\<close> come from the host and are not part of
  the model.
\<close>

definition play :: "runner \<Rightarrow> AnimationEngine \<Rightarrow> outcome" where
  "play run s =
     (if isPlaying s then Ok s
      else triggerPlaybackEvent run PLAY (s\<lparr>isPlaying := True, frameRequested := True\<rparr>))"

definition pause :: "runner \<Rightarrow> AnimationEngine \<Rightarrow> outcome" where
  "pause run s = triggerPlaybackEvent run PAUSE (s\<lparr>isPlaying := False, frameRequested := False\<rparr>)"

definition stop :: "runner \<Rightarrow> AnimationEngine \<Rightarrow> outcome" where
  "stop run s =
     andThen (pause run s) (\<lambda>s1.
       andThen (updateFrame run 0 (s1\<lparr>currentFrame := 0, activeSequences := Map.empty\<rparr>))
         (triggerPlaybackEvent run STOP))"

definition seekToFrame :: "runner \<Rightarrow> int \<Rightarrow> AnimationEngine \<Rightarrow> outcome" where
  "seekToFrame run f s =
     (let s1 = s\<lparr>currentFrame := max 0 (min f (tl_duration (timeline s) - 1))\<rparr>
      in updateFrame run (currentFrame s1) s1)"

subsection \<open>Groups\<close>

text \<open>\<open>findElementById\<close>: the first element with the id, layer by layer, frame by frame.\<close>

definition findInFrames :: "string \<Rightarrow> Frame list \<Rightarrow> Element option" where
  "findInFrames ident fs = find (\<lambda>e. el_id e = ident) (concat (map elements fs))"

definition findElementById :: "string \<Rightarrow> Timeline \<Rightarrow> Element option" where
  "findElementById ident tml = findInFrames ident (concat (map frames (layers tml)))"

text \<open>
  The engine changes the element it has found in place.  Here the changed element is
  written back where the search finds it: the first element with that id.
\<close>

fun replaceFirst :: "string \<Rightarrow> Element \<Rightarrow> Element list \<Rightarrow> Element list" where
  "replaceFirst ident e' [] = []"
| "replaceFirst ident e' (e # es) = (if el_id e = ident then e' # es else e # replaceFirst ident e' es)"

fun replaceInFrames :: "string \<Rightarrow> Element \<Rightarrow> Frame list \<Rightarrow> Frame list" where
  "replaceInFrames ident e' [] = []"
| "replaceInFrames ident e' (f # fs) =
     (if find (\<lambda>e. el_id e = ident) (elements f) \<noteq> None
      then f\<lparr>elements := replaceFirst ident e' (elements f)\<rparr> # fs
      else f # replaceInFrames ident e' fs)"

fun replaceInLayers :: "string \<Rightarrow> Element \<Rightarrow> Layer list \<Rightarrow> Layer list" where
  "replaceInLayers ident e' [] = []"
| "replaceInLayers ident e' (l # ls) =
     (if findInFrames ident (frames l) \<noteq> None
      then l\<lparr>frames := replaceInFrames ident e' (frames l)\<rparr> # ls
      else l # replaceInLayers ident e' ls)"

definition replaceElementById :: "string \<Rightarrow> Element \<Rightarrow> Timeline \<Rightarrow> Timeline" where
  "replaceElementById ident e' tml = tml\<lparr>layers := replaceInLayers ident e' (layers tml)\<rparr>"

text \<open>\<open>animation.keyframes = [...]\<close> on the first animation of the property.\<close>

fun setKeyframes :: "string \<Rightarrow> Keyframe list \<Rightarrow> PropertyAnimation list \<Rightarrow> PropertyAnimation list" where
  "setKeyframes p kfs [] = []"
| "setKeyframes p kfs (a # as) =
     (if property a = p then a\<lparr>keyframes := kfs\<rparr> # as else a # setKeyframes p kfs as)"

text \<open>
  The two keyframes that \<open>applyGroupAnimationToElement\<close> writes for one property:
  the current value (\<open>0\<close> when it is falsy) at the start frame, and at the end frame
  its double when it is a number, the same value otherwise.
\<close>

definition groupEasing :: "AnimationGroup \<Rightarrow> string" where
  "groupEasing g = (case grp_easing g of None \<Rightarrow> ''ease-in-out'' | Some e \<Rightarrow> if e = [] then ''ease-in-out'' else e)"

definition groupKeyframes :: "AnimationGroup \<Rightarrow> real \<Rightarrow> jsval \<Rightarrow> Keyframe list" where
  "groupKeyframes g delayFrames v =
     (let startFrame = real_of_int (grp_startFrame g) + delayFrames;
          endFrame = startFrame + real_of_int (grp_duration g);
          currentValue = (if truthy v then v else VNum (Num 0))
      in [\<lparr>kf_frame = startFrame, kf_value = currentValue, kf_easing = groupEasing g\<rparr>,
          \<lparr>kf_frame = endFrame,
           kf_value = (case currentValue of VNum n \<Rightarrow> VNum (n * Num 2) | _ \<Rightarrow> currentValue),
           kf_easing = groupEasing g\<rparr>])"

text \<open>
  \<open>group.properties.forEach\<close>.  The animation of the property is found or pushed before
  the property is read, so when \<open>getNestedProperty\<close> throws the new animation stays,
  without keyframes.  The flag says whether the loop threw.
\<close>

fun applyGroupProperties ::
  "AnimationGroup \<Rightarrow> real \<Rightarrow> jsval \<Rightarrow> string list \<Rightarrow> PropertyAnimation list
     \<Rightarrow> PropertyAnimation list \<times> bool" where
  "applyGroupProperties g delayFrames props [] anims = (anims, False)"
| "applyGroupProperties g delayFrames props (p # ps) anims =
     (let anims1 = (if find (\<lambda>a. property a = p) anims = None
                    then anims @ [\<lparr>property = p, keyframes = []\<rparr>] else anims)
      in case getNestedProperty props p of
           Inl e \<Rightarrow> (anims1, True)
         | Inr v \<Rightarrow>
             applyGroupProperties g delayFrames props ps
               (setKeyframes p (groupKeyframes g delayFrames v) anims1))"

definition applyGroupAnimationToElement ::
  "Element \<Rightarrow> AnimationGroup \<Rightarrow> real \<Rightarrow> Element \<times> bool" where
  "applyGroupAnimationToElement element g delayFrames =
     (let anims0 = (case animations element of None \<Rightarrow> [] | Some as \<Rightarrow> as);
          (anims, threw) = applyGroupProperties g delayFrames (properties element)
                             (grp_properties g) anims0
      in (element\<lparr>animations := Some anims\<rparr>, threw))"

text \<open>The delay of the element at position \<open>index\<close> among the \<open>n\<close> elements found.\<close>

definition groupDelay :: "AnimationGroup \<Rightarrow> nat \<Rightarrow> nat \<Rightarrow> real" where
  "groupDelay g n index =
     (case grp_type g of
        PARALLEL \<Rightarrow> 0
      | SEQUENCE \<Rightarrow> real_of_int (grp_duration g) / real n * real index
      | STAGGER \<Rightarrow>
          real_of_int (case staggerDelay g of None \<Rightarrow> 5 | Some d \<Rightarrow> if d = 0 then 5 else d)
            * real index)"

fun playGroupElements ::
  "AnimationGroup \<Rightarrow> nat \<Rightarrow> nat \<Rightarrow> string list \<Rightarrow> Timeline \<Rightarrow> Timeline \<times> bool" where
  "playGroupElements g n index [] tml = (tml, False)"
| "playGroupElements g n index (ident # idents) tml =
     (case findElementById ident tml of
        None \<Rightarrow> playGroupElements g n index idents tml
      | Some element \<Rightarrow>
          (let (element', threw) = applyGroupAnimationToElement element g (groupDelay g n index);
               tml' = replaceElementById ident element' tml
           in if threw then (tml', True) else playGroupElements g n (Suc index) idents tml'))"

text \<open>
  \<open>playGroup\<close>: the elements that exist are animated in the order of \<open>elementIds\<close>,
  then the completion callback is registered under the name \<open>frame_N\<close>, \<open>N\<close> the
  frame \<open>startFrame + duration\<close>.
\<close>

definition playGroup :: "AnimationGroup \<Rightarrow> AnimationEngine \<Rightarrow> outcome" where
  "playGroup g s =
     (let found = filter (\<lambda>ident. findElementById ident (timeline s) \<noteq> None) (elementIds g);
          (tml', threw) = playGroupElements g (length found) 0 found (timeline s);
          s1 = s\<lparr>timeline := tml'\<rparr>
      in if threw then Throw s1
         else Ok (addEventListener
                    (''frame_'' @ show_int (grp_startFrame g + grp_duration g))
                    (HGroupComplete (nextId s1) (grp_id g))
                    (s1\<lparr>nextId := Suc (nextId s1)\<rparr>)))"

subsection \<open>Sequences\<close>

definition updateRuntime ::
  "nat \<Rightarrow> (ActiveSequence \<Rightarrow> ActiveSequence) \<Rightarrow> AnimationEngine \<Rightarrow> AnimationEngine" where
  "updateRuntime a f s =
     (case runtimes s a of None \<Rightarrow> s | Some rt \<Rightarrow> s\<lparr>runtimes := (runtimes s)(a \<mapsto> f rt)\<rparr>)"

definition nonEmpty :: "string option \<Rightarrow> string option" where
  "nonEmpty x = (case x of None \<Rightarrow> None | Some v \<Rightarrow> if v = [] then None else Some v)"

text \<open>
  \<open>executeSequenceStep\<close> calls itself; the first argument bounds the depth of that
  recursion.  The object of the sequence is read once, at the start, as the code does
  with \<open>activeSequence\<close>; the later writes go to that object.
\<close>

primrec executeSequenceStep :: "nat \<Rightarrow> runner \<Rightarrow> string \<Rightarrow> AnimationEngine \<Rightarrow> outcome" where
  "executeSequenceStep 0 run sequenceId s = Diverge"
| "executeSequenceStep (Suc n) run sequenceId s =
     (case activeSequences s sequenceId of
        None \<Rightarrow> Ok s
      | Some a \<Rightarrow>
         (case runtimes s a of
            None \<Rightarrow> Ok s
          | Some activeSequence \<Rightarrow>
             (let sequence = as_sequence activeSequence; step_no = currentStep activeSequence in
              if length (steps sequence) \<le> step_no then
                (let s1 = updateRuntime a (\<lambda>rt. rt\<lparr>iterations := iterations rt + 1\<rparr>) s in
                 if repeat sequence = - 1 \<or> iterations activeSequence + 1 < repeat sequence
                 then executeSequenceStep n run sequenceId
                        (updateRuntime a (\<lambda>rt. rt\<lparr>currentStep := 0\<rparr>) s1)
                 else andThen
                        (dispatchEvent run ''sequenceComplete''
                           ((eventData (''sequence_'' @ sequenceId))\<lparr>d_sequenceId := Some sequenceId\<rparr>)
                           s1)
                        (\<lambda>s2. Ok (s2\<lparr>activeSequences := (activeSequences s2)(sequenceId := None)\<rparr>)))
              else
                (let step = steps sequence ! step_no in
                 case groups s (groupId step) of
                   None \<Rightarrow>
                     executeSequenceStep n run sequenceId
                       (updateRuntime a (\<lambda>rt. rt\<lparr>currentStep := Suc (currentStep rt)\<rparr>)
                          (consoleError (''Animation group '' @ groupId step @ '' not found'') s))
                 | Some g \<Rightarrow>
                     andThen (playGroup g s) (\<lambda>s1.
                       if \<not> waitForComplete step then
                         executeSequenceStep n run sequenceId
                           (updateRuntime a (\<lambda>rt. rt\<lparr>currentStep := Suc (currentStep rt)\<rparr>) s1)
                       else
                         Ok (addEventListener ''animationComplete''
                               (HStepComplete (nextId s1) sequenceId step_no (onComplete step) a)
                               (s1\<lparr>nextId := Suc (nextId s1)\<rparr>)))))))"

definition playSequence :: "nat \<Rightarrow> runner \<Rightarrow> string \<Rightarrow> AnimationEngine \<Rightarrow> outcome" where
  "playSequence n run sequenceId s =
     (case sequences s sequenceId of
        None \<Rightarrow> Ok s
      | Some sequence \<Rightarrow>
          andThen
            (executeSequenceStep n run sequenceId
               (s\<lparr>runtimes := (runtimes s)(nextId s \<mapsto>
                                \<lparr>as_sequence = sequence, currentStep = 0, iterations = 0\<rparr>),
                  activeSequences := (activeSequences s)(sequenceId \<mapsto> nextId s),
                  nextId := Suc (nextId s)\<rparr>))
            (play run))"

definition stopSequence :: "string \<Rightarrow> AnimationEngine \<Rightarrow> AnimationEngine" where
  "stopSequence sequenceId s = s\<lparr>activeSequences := (activeSequences s)(sequenceId := None)\<rparr>"

definition registerGroup :: "AnimationGroup \<Rightarrow> AnimationEngine \<Rightarrow> AnimationEngine" where
  "registerGroup g s = s\<lparr>groups := (groups s)(grp_id g \<mapsto> g)\<rparr>"

definition registerSequence ::
  "nat \<Rightarrow> runner \<Rightarrow> AnimationSequence \<Rightarrow> AnimationEngine \<Rightarrow> outcome" where
  "registerSequence n run sequence s =
     (let s1 = s\<lparr>sequences := (sequences s)(seq_id sequence \<mapsto> sequence)\<rparr> in
      if autoPlay sequence then playSequence n run (seq_id sequence) s1 else Ok s1)"

subsection \<open>Listeners\<close>

text \<open>
  The bodies of the listeners.  A listener runs at a recursion depth one less than its
  caller's; at depth \<open>0\<close> the model gives up.
\<close>

definition frameParameter :: "EventData \<Rightarrow> int option" where
  "frameParameter d = (case d_parameters d of None \<Rightarrow> None | Some ps \<Rightarrow> p_frame ps)"

definition sequenceParameter :: "EventData \<Rightarrow> string option" where
  "sequenceParameter d = (case d_parameters d of None \<Rightarrow> None | Some ps \<Rightarrow> nonEmpty (p_sequenceId ps))"

primrec runHandler :: "nat \<Rightarrow> runner" where
  "runHandler 0 h d s = Diverge"
| "runHandler (Suc n) h d s =
     (case h of
        HGotoFrame \<Rightarrow>
          (case frameParameter d of None \<Rightarrow> Ok s | Some f \<Rightarrow> seekToFrame (runHandler n) f s)
      | HGotoAndPlay \<Rightarrow>
          (case frameParameter d of
             None \<Rightarrow> Ok s
           | Some f \<Rightarrow> andThen (seekToFrame (runHandler n) f s) (play (runHandler n)))
      | HGotoAndStop \<Rightarrow>
          (case frameParameter d of
             None \<Rightarrow> Ok s
           | Some f \<Rightarrow> andThen (seekToFrame (runHandler n) f s) (pause (runHandler n)))
      | HPlay \<Rightarrow> play (runHandler n) s
      | HPause \<Rightarrow> pause (runHandler n) s
      | HStop \<Rightarrow> stop (runHandler n) s
      | HTogglePlay \<Rightarrow> (if isPlaying s then pause (runHandler n) s else play (runHandler n) s)
      | HPlaySequence \<Rightarrow>
          (case sequenceParameter d of
             None \<Rightarrow> Ok s
           | Some sequenceId \<Rightarrow> playSequence n (runHandler n) sequenceId s)
      | HStopSequence \<Rightarrow>
          (case sequenceParameter d of
             None \<Rightarrow> Ok s
           | Some sequenceId \<Rightarrow> Ok (stopSequence sequenceId s))
      | HGroupComplete c group_id \<Rightarrow>
          dispatchEvent (runHandler n) ''animationComplete''
            ((eventData (''group_'' @ group_id))\<lparr>d_groupId := Some group_id\<rparr>) s
      | HStepComplete c sequenceId step_no on_complete a \<Rightarrow>
          andThen
            (case nonEmpty on_complete of
               None \<Rightarrow> Ok s
             | Some name \<Rightarrow>
                 dispatchEvent (runHandler n) name
                   ((eventData (''sequenceStep_'' @ sequenceId @ ''_'' @ show_nat step_no))
                      \<lparr>d_sequenceId := Some sequenceId, d_stepIndex := Some step_no\<rparr>) s)
            (\<lambda>s1. andThen
               (executeSequenceStep n (runHandler n) sequenceId
                  (updateRuntime a (\<lambda>rt. rt\<lparr>currentStep := Suc (currentStep rt)\<rparr>) s1))
               (\<lambda>s2. Ok (removeEventListener ''animationComplete'' h s2)))
      | HUser u throws \<Rightarrow> (if throws then Throw s else Ok s))"

text \<open>The constructor, with the nine default listeners in the order of the code.\<close>

definition newEventTriggerManager :: EventTriggerManager where
  "newEventTriggerManager =
     \<lparr>triggers = [], handlers = Map.empty, activeRangeTriggers = [],
      em_currentFrame = 0, em_previousFrame = 0\<rparr>"

definition setupDefaultEventActions :: "AnimationEngine \<Rightarrow> AnimationEngine" where
  "setupDefaultEventActions s =
     fold (\<lambda>(event, h). addEventListener event h)
       [(''gotoFrame'', HGotoFrame), (''gotoAndPlay'', HGotoAndPlay), (''gotoAndStop'', HGotoAndStop),
        (''play'', HPlay), (''pause'', HPause), (''stop'', HStop), (''togglePlay'', HTogglePlay),
        (''playSequence'', HPlaySequence), (''stopSequence'', HStopSequence)] s"

definition newAnimationEngine :: "Timeline \<Rightarrow> AnimationEngine" where
  "newAnimationEngine tml =
     setupDefaultEventActions
       \<lparr>timeline = tml, currentFrame = 0, isPlaying = False, frameRequested = False,
        pathManager = \<lparr>paths = Map.empty, pathAnimations = []\<rparr>,
        eventManager = newEventTriggerManager,
        groups = Map.empty, sequences = Map.empty, activeSequences = Map.empty,
        runtimes = Map.empty, nextId = 0, dispatched = [], console = []\<rparr>"

subsection \<open>The rendered elements\<close>

text \<open>
  \<open>PathManager.applyPathAnimations\<close>.  The placement itself, from the progress along
  the path to the writes of \<open>x\<close>, \<open>y\<close> and \<open>rotation\<close>, is arc-length geometry on
  floating-point numbers; it is the parameter \<open>place\<close>, a function of the animation,
  the path, the frame and the element.  The loop around it is the code's: the
  animations in order, each one in its window \<open>[startFrame, startFrame + duration)\<close>,
  on the last element of the list that carries the id (the lookup map is filled in
  list order), and only when its path is registered.
\<close>

type_synonym placement = "PathAnimation \<Rightarrow> Path \<Rightarrow> int \<Rightarrow> Element \<Rightarrow> error + Element"

fun replaceLast :: "string \<Rightarrow> Element \<Rightarrow> Element list \<Rightarrow> Element list" where
  "replaceLast ident e' [] = []"
| "replaceLast ident e' (e # es) =
     (if el_id e = ident \<and> find (\<lambda>x. el_id x = ident) es = None then e' # es
      else e # replaceLast ident e' es)"

definition applyPathAnimation ::
  "placement \<Rightarrow> PathManager \<Rightarrow> int \<Rightarrow> PathAnimation \<Rightarrow> Element list \<Rightarrow> error + Element list" where
  "applyPathAnimation place pm cur animation elems =
     (if pa_startFrame animation \<le> cur \<and> cur < pa_startFrame animation + pa_duration animation then
        (case find (\<lambda>e. el_id e = pa_elementId animation) (rev elems) of
           None \<Rightarrow> Inr elems
         | Some element \<Rightarrow>
             (case paths pm (pathId (options animation)) of
                None \<Rightarrow> Inr elems
              | Some path \<Rightarrow>
                  (case place animation path cur element of
                     Inl e \<Rightarrow> Inl e
                   | Inr element' \<Rightarrow> Inr (replaceLast (pa_elementId animation) element' elems))))
      else Inr elems)"

fun applyPathAnimationList ::
  "placement \<Rightarrow> PathManager \<Rightarrow> int \<Rightarrow> PathAnimation list \<Rightarrow> Element list \<Rightarrow> error + Element list" where
  "applyPathAnimationList place pm cur [] elems = Inr elems"
| "applyPathAnimationList place pm cur (a # as) elems =
     (case applyPathAnimation place pm cur a elems of
        Inl e \<Rightarrow> Inl e
      | Inr elems' \<Rightarrow> applyPathAnimationList place pm cur as elems')"

definition applyPathAnimations ::
  "placement \<Rightarrow> PathManager \<Rightarrow> Element list \<Rightarrow> int \<Rightarrow> error + Element list" where
  "applyPathAnimations place pm elems cur = applyPathAnimationList place pm cur (pathAnimations pm) elems"

text \<open>\<open>getCurrentElements\<close>: the visible layers in order, each with its active frame.\<close>

fun currentElementsOf ::
  "placement \<Rightarrow> PathManager \<Rightarrow> int \<Rightarrow> Layer list \<Rightarrow> error + Element list" where
  "currentElementsOf place pm cur [] = Inr []"
| "currentElementsOf place pm cur (layer # ls) =
     (if \<not> visible layer then currentElementsOf place pm cur ls
      else (case findActiveFrame cur (frames layer) of
              None \<Rightarrow> currentElementsOf place pm cur ls
            | Some activeFrame \<Rightarrow>
                (case applyAnimations cur (elements activeFrame) activeFrame of
                   Inl e \<Rightarrow> Inl e
                 | Inr animatedElements \<Rightarrow>
                     (case applyPathAnimations place pm animatedElements cur of
                        Inl e \<Rightarrow> Inl e
                      | Inr placed \<Rightarrow>
                          (case currentElementsOf place pm cur ls of
                             Inl e \<Rightarrow> Inl e
                           | Inr rest \<Rightarrow> Inr (placed @ rest))))))"

definition getCurrentElements :: "placement \<Rightarrow> AnimationEngine \<Rightarrow> error + Element list" where
  "getCurrentElements place s =
     currentElementsOf place (pathManager s) (currentFrame s) (layers (timeline s))"

section \<open>A test timeline\<close>

text \<open>
  The timeline of the repository's group tests: one visible layer, one frame over
  \<open>[0, 300)\<close>, a circle and a rectangle.
\<close>

definition testCircle :: Element where
  "testCircle =
     \<lparr>el_id = ''circle'', el_type = ''circle'',
      properties = VObj [(''x'', VNum (Num 100)), (''y'', VNum (Num 100)),
                         (''radius'', VNum (Num 50)), (''fill'', VStr ''#ff0000'')],
      animations = None\<rparr>"

definition testRect :: Element where
  "testRect =
     \<lparr>el_id = ''rect'', el_type = ''rectangle'',
      properties = VObj [(''x'', VNum (Num 200)), (''y'', VNum (Num 100)),
                         (''width'', VNum (Num 100)), (''height'', VNum (Num 80)),
                         (''fill'', VStr ''#0000ff'')],
      animations = None\<rparr>"

definition testTimeline :: Timeline where
  "testTimeline =
     \<lparr>frameRate = 60, tl_duration = 300,
      layers = [\<lparr>layer_id = ''testLayer'', visible = True, locked = False,
                 frames = [\<lparr>fr_startFrame = 0, fr_duration = 300,
                            elements = [testCircle, testRect]\<rparr>]\<rparr>]\<rparr>"

definition testEngine :: AnimationEngine where
  "testEngine = newAnimationEngine testTimeline"

text \<open>The first group and a one-step sequence of the repository's sequence tests.\<close>

definition group1 :: AnimationGroup where
  "group1 =
     \<lparr>grp_id = ''group1'', grp_type = PARALLEL, elementIds = [''circle''],
      grp_properties = [''radius''], grp_startFrame = 10, grp_duration = 20,
      staggerDelay = None, grp_easing = Some ''linear''\<rparr>"

definition waitSequence :: AnimationSequence where
  "waitSequence =
     \<lparr>seq_id = ''testSequence'',
      steps = [\<lparr>groupId = ''group1'', waitForComplete = True, onComplete = Some ''stepDone''\<rparr>],
      repeat = 1, autoPlay = False\<rparr>"

text \<open>The engine with the group and the sequence registered.\<close>

definition sequenceEngine :: AnimationEngine where
  "sequenceEngine =
     (registerGroup group1 testEngine)
       \<lparr>sequences := (sequences testEngine)(''testSequence'' \<mapsto> waitSequence)\<rparr>"

text \<open>A range trigger over \<open>[30, 50]\<close> and a frame trigger, each with a listener of the application.\<close>

definition rangeTrigger :: EventTrigger where
  "rangeTrigger =
     \<lparr>trig_id = ''test-range-trigger'', trig_type = RANGE_ENTER, action = ''rangeEnterAction'',
      parameters = None, trig_frame = 0, trig_startFrame = 30, trig_endFrame = 50\<rparr>"

definition rangeEngine :: AnimationEngine where
  "rangeEngine =
     em_update (\<lambda>em. em\<lparr>em_currentFrame := 29\<rparr>)
       (addEventListener ''rangeEnterAction'' (HUser 1 False) (registerTrigger rangeTrigger testEngine))"

definition frameTrigger :: EventTrigger where
  "frameTrigger =
     \<lparr>trig_id = ''test-frame-trigger'', trig_type = FRAME_ENTER, action = ''testAction'',
      parameters = None, trig_frame = 10, trig_startFrame = 0, trig_endFrame = 0\<rparr>"

definition frameEngine :: AnimationEngine where
  "frameEngine =
     (addEventListener ''testAction'' (HUser 1 False) (registerTrigger frameTrigger testEngine))
       \<lparr>isPlaying := True, frameRequested := True\<rparr>"

text \<open>Two listeners of one event, the first of which throws.\<close>

definition errorEngine :: AnimationEngine where
  "errorEngine =
     addEventListener ''errorEvent'' (HUser 2 False)
       (addEventListener ''errorEvent'' (HUser 1 True) testEngine)"

section \<open>Conditions on listeners\<close>

text \<open>
  A listener is quiet under a runner when it returns or throws and leaves the engine
  as it found it: a listener that does not call back into the engine.
\<close>

definition quiet :: "runner \<Rightarrow> handler \<Rightarrow> bool" where
  "quiet run h = (\<forall>d s. run h d s = Ok s \<or> run h d s = Throw s)"

text \<open>The listeners of the actions of all registered triggers are quiet.\<close>

definition quietTriggers :: "runner \<Rightarrow> AnimationEngine \<Rightarrow> bool" where
  "quietTriggers run s =
     (\<forall>t\<in>set (triggers (eventManager s)). \<forall>h\<in>set (listenersOf s (action t)). quiet run h)"

text \<open>
  What the trigger checks themselves change: the set of active ranges, and the two
  records of what was dispatched and logged.
\<close>

definition quietStep :: "AnimationEngine \<Rightarrow> AnimationEngine \<Rightarrow> bool" where
  "quietStep s s' =
     (\<exists>ar ds cs. s' = s\<lparr>eventManager := (eventManager s)\<lparr>activeRangeTriggers := ar\<rparr>,
                         dispatched := dispatched s @ ds, console := console s @ cs\<rparr>)"

text \<open>The frame \<open>seekToFrame\<close> moves to.\<close>

definition clampFrame :: "int \<Rightarrow> int \<Rightarrow> int" where
  "clampFrame duration f = (if f < 0 then 0 else if duration \<le> f then duration - 1 else f)"

section \<open>Properties of the easing library\<close>

lemmas jsarith = minus_jsnum_def js_seq_def Math_PI_def

lemmas easing_defs =
  linear_def easeInQuad_def easeOutQuad_def easeInOutQuad_def
  easeInCubic_def easeOutCubic_def easeInOutCubic_def
  easeInQuart_def easeOutQuart_def easeInOutQuart_def
  easeInQuint_def easeOutQuint_def easeInOutQuint_def
  easeInSine_def easeOutSine_def easeInOutSine_def
  easeInExpo_def easeOutExpo_def easeInOutExpo_def
  easeInCirc_def easeOutCirc_def easeInOutCirc_def
  easeInElastic_def easeOutElastic_def easeInOutElastic_def
  easeInBack_def easeOutBack_def easeInOutBack_def
  easeOutBounce_def easeInBounce_def easeInOutBounce_def

lemma easeOutBounce_Num:
  "easeOutBounce (Num t) =
     Num (if t < 1 / 2.75 then 7.5625 * t * t
          else if t < 2 / 2.75 then 7.5625 * (t - 1.5 / 2.75) * (t - 1.5 / 2.75) + 0.75
          else if t < 2.5 / 2.75 then 7.5625 * (t - 2.25 / 2.75) * (t - 2.25 / 2.75) + 0.9375
          else 7.5625 * (t - 2.625 / 2.75) * (t - 2.625 / 2.75) + 0.984375)"
  by (simp add: easeOutBounce_def jsarith Let_def)

text \<open>Every function of the table maps \<open>NaN\<close> to \<open>NaN\<close> and \<open>1\<close> to \<open>1\<close>.\<close>

lemma getEasingFunction_NaN: "getEasingFunction name NaN = NaN"
  unfolding getEasingFunction_def easingMap_def
  by (simp add: easing_defs jsarith Let_def)

lemma getEasingFunction_one: "getEasingFunction name (Num 1) = Num 1"
  unfolding getEasingFunction_def easingMap_def
  by (simp add: easing_defs jsarith Let_def)

text \<open>
  Claim C9.  For every finite argument \<open>t\<close> (in particular for every \<open>t\<close> in \<open>[0,1]\<close>):
  \<open>easeInQuad(t) = t * t\<close>, \<open>easeOutQuad(t) = t * (2 - t)\<close>, and
  \<open>easeInBounce(t) = 1 - easeOutBounce(1 - t)\<close>, where \<open>easeOutBounce(1 - t)\<close> is a
  finite number \<open>r\<close>, so that the difference is the finite number \<open>1 - r\<close>.
\<close>

theorem easing_quad_bounce:
  "easeInQuad (Num t) = Num (t * t) \<and>
   easeOutQuad (Num t) = Num (t * (2 - t)) \<and>
   easeInBounce (Num t) = Num 1 - easeOutBounce (Num 1 - Num t) \<and>
   (\<exists>r. easeOutBounce (Num (1 - t)) = Num r \<and> easeInBounce (Num t) = Num (1 - r))"
  by (simp add: easeInQuad_def easeOutQuad_def easeInBounce_def easeOutBounce_Num jsarith)

section \<open>Properties of \<open>parseSVGPath\<close>\<close>

lemma segmentCommand_type:
  "js_letter c \<Longrightarrow>
   map command_type (segmentCommand (c # r)) =
     (case map_of commandLetters c of None \<Rightarrow> [] | Some t \<Rightarrow> [t])"
  by (simp add: segmentCommand_def commandLetters_def Let_def)

lemma commandLetters_letter: "\<not> js_letter c \<Longrightarrow> map_of commandLetters c = None"
  by (auto simp: commandLetters_def js_letter_def Let_def)

lemma parseSVGPath_types:
  "map command_type (parseSVGPath s) =
     concat (map (\<lambda>c. case map_of commandLetters c of None \<Rightarrow> [] | Some t \<Rightarrow> [t]) s)"
proof (induction s)
  case Nil
  show ?case by (simp add: parseSVGPath_def)
next
  case (Cons c cs)
  show ?case
  proof (cases "js_letter c")
    case True
    with Cons show ?thesis
      by (simp add: parseSVGPath_def segmentCommand_type map_concat del: map_map)
  next
    case False
    with Cons show ?thesis
      by (simp add: parseSVGPath_def commandLetters_letter)
  qed
qed

text \<open>
  Claim C8, as the code has it.  \<open>parseSVGPath('M100,100 L200,200 Z')\<close> is the three
  commands \<open>MOVE_TO (100,100)\<close>, \<open>LINE_TO (200,200)\<close>, \<open>CLOSE\<close>; the empty string
  and \<open>'X100,100'\<close> give the empty list.  For every input string the types of the
  commands are read off its characters alone: each of the letters M, L, C, Q, A, Z
  gives exactly one command of its type, whatever follows it, and every other
  character gives none.  The function is total: no operation in it raises on a string.
\<close>

theorem parseSVGPath_commands:
  "parseSVGPath ''M100,100 L200,200 Z'' =
     [MoveToCommand (Some (Num 100)) (Some (Num 100)),
      LineToCommand (Some (Num 200)) (Some (Num 200)),
      CloseCommand]
   \<and> parseSVGPath '''' = []
   \<and> parseSVGPath ''X100,100'' = []
   \<and> map command_type (parseSVGPath s) =
       concat (map (\<lambda>c. case map_of commandLetters c of None \<Rightarrow> [] | Some t \<Rightarrow> [t]) s)"
proof -
  have a: "parseSVGPath ''M100,100 L200,200 Z'' =
     [MoveToCommand (Some (Num 100)) (Some (Num 100)),
      LineToCommand (Some (Num 200)) (Some (Num 200)),
      CloseCommand]"
    by code_simp
  have b: "parseSVGPath '''' = []"
    by code_simp
  have c: "parseSVGPath ''X100,100'' = []"
    by code_simp
  show ?thesis
    using a b c parseSVGPath_types by blast
qed

text \<open>
  The claim as stated fails: a malformed token under a known letter still produces a
  command.  \<open>'M'\<close> alone gives a \<open>MOVE_TO\<close> whose \<open>x\<close> is \<open>NaN\<close> and whose \<open>y\<close> is
  \<open>undefined\<close>, and \<open>'L10'\<close> a \<open>LINE_TO\<close> without \<open>y\<close>.
\<close>

theorem parseSVGPath_malformed_counterexample:
  "parseSVGPath ''M'' = [MoveToCommand (Some NaN) None]
   \<and> parseSVGPath ''L10'' = [LineToCommand (Some (Num 10)) None]
   \<and> parseSVGPath ''M'' \<noteq> []"
  by code_simp

section \<open>Properties of the engine\<close>

text \<open>
  Claim C10.  \<open>playSequence\<close> with an id that no registered sequence has returns at
  once with the engine as it was: no runtime object and no entry of
  \<open>activeSequences\<close>, nothing dispatched, the clock not started, the frame unmoved.
\<close>

theorem playSequence_unknown:
  assumes "sequences s sequenceId = None"
  shows "playSequence n run sequenceId s = Ok s"
  using assms by (simp add: playSequence_def)

section \<open>Properties of the trigger manager\<close>

text \<open>
  Under quiet listeners a dispatch changes nothing but the two records, and a frame
  update nothing but them and the set of active ranges.
\<close>

lemma listenersOf_console [simp]: "listenersOf (s\<lparr>console := c\<rparr>) ev = listenersOf s ev"
  by (simp add: listenersOf_def)
lemma listenersOf_dispatched [simp]: "listenersOf (s\<lparr>dispatched := c\<rparr>) ev = listenersOf s ev"
  by (simp add: listenersOf_def)

lemma forEachHandler_quiet:
  assumes "\<forall>h\<in>set (listenersOf s ev). quiet run h"
  shows "\<exists>cs called. forEachHandler run ev d m k s = Some (s\<lparr>console := console s @ cs\<rparr>, called)"
  using assms
proof (induction m arbitrary: k s)
  case 0
  have "s\<lparr>console := console s @ []\<rparr> = s" by simp
  then show ?case by (metis forEachHandler.simps(1))
next
  case (Suc m)
  let ?hs = "listenersOf s ev"
  show ?case
  proof (cases "k < length ?hs")
    case False
    from Suc.IH[OF Suc.prems, of "Suc k"] False show ?thesis by (auto simp add: Let_def)
  next
    case True
    then have hk: "?hs ! k \<in> set ?hs" by simp
    then have q: "quiet run (?hs ! k)" using Suc.prems by blast
    from q have "run (?hs ! k) d s = Ok s \<or> run (?hs ! k) d s = Throw s"
      by (simp add: quiet_def)
    then show ?thesis
    proof
      assume r: "run (?hs ! k) d s = Ok s"
      from Suc.IH[OF Suc.prems, of "Suc k"] True r show ?thesis by (auto simp add: Let_def)
    next
      assume r: "run (?hs ! k) d s = Throw s"
      let ?s1 = "consoleError (''Error in event handler for '' @ ev) s"
      have l1: "listenersOf ?s1 ev = ?hs" by (simp add: consoleError_def)
      have "\<forall>h\<in>set (listenersOf ?s1 ev). quiet run h" using Suc.prems l1 by simp
      from Suc.IH[OF this, of "Suc k"] obtain cs called where
        "forEachHandler run ev d m (Suc k) ?s1 = Some (?s1\<lparr>console := console ?s1 @ cs\<rparr>, called)"
        by auto
      then have "forEachHandler run ev d m (Suc k) ?s1 =
         Some (s\<lparr>console := console s @ ((''Error in event handler for '' @ ev) # cs)\<rparr>, called)"
        by (simp add: consoleError_def)
      with True r show ?thesis by (auto simp add: Let_def)
    qed
  qed
qed

lemma dispatchEvent_quiet:
  assumes "\<forall>h\<in>set (listenersOf s ev). quiet run h"
  shows "\<exists>cs. dispatchEvent run ev d s =
           Ok (s\<lparr>dispatched := dispatched s @ [(ev, d)], console := console s @ cs\<rparr>)"
proof (cases "handlers (eventManager s) ev")
  case None
  then show ?thesis by (auto simp add: dispatchEvent_def dispatchCalls_def Let_def intro: exI[of _ "[]"])
next
  case (Some hs)
  let ?s0 = "s\<lparr>dispatched := dispatched s @ [(ev, d)]\<rparr>"
  have "\<forall>h\<in>set (listenersOf ?s0 ev). quiet run h" using assms by simp
  from forEachHandler_quiet[OF this, of d "length hs" 0] obtain cs called where
    "forEachHandler run ev d (length hs) 0 ?s0 = Some (?s0\<lparr>console := console ?s0 @ cs\<rparr>, called)"
    by auto
  with Some show ?thesis by (auto simp add: dispatchEvent_def dispatchCalls_def Let_def)
qed

lemma quietStep_refl: "quietStep s s"
  unfolding quietStep_def
  by (rule exI[of _ "activeRangeTriggers (eventManager s)"], rule exI[of _ "[]"], rule exI[of _ "[]"]) simp

lemma quietStep_trans:
  assumes "quietStep a b" and "quietStep b c"
  shows "quietStep a c"
proof -
  from assms(1) obtain ar ds cs where
    b: "b = a\<lparr>eventManager := (eventManager a)\<lparr>activeRangeTriggers := ar\<rparr>,
              dispatched := dispatched a @ ds, console := console a @ cs\<rparr>"
    unfolding quietStep_def by blast
  from assms(2) obtain ar' ds' cs' where
    c: "c = b\<lparr>eventManager := (eventManager b)\<lparr>activeRangeTriggers := ar'\<rparr>,
              dispatched := dispatched b @ ds', console := console b @ cs'\<rparr>"
    unfolding quietStep_def by blast
  have "c = a\<lparr>eventManager := (eventManager a)\<lparr>activeRangeTriggers := ar'\<rparr>,
              dispatched := dispatched a @ (ds @ ds'), console := console a @ (cs @ cs')\<rparr>"
    by (simp add: b c)
  then show ?thesis unfolding quietStep_def by blast
qed

lemma quietStep_logs:
  "quietStep s (s\<lparr>dispatched := dispatched s @ ds, console := console s @ cs\<rparr>)"
  unfolding quietStep_def
  by (rule exI[of _ "activeRangeTriggers (eventManager s)"], rule exI[of _ ds], rule exI[of _ cs]) simp

lemma quietStep_active:
  "quietStep s (em_update (\<lambda>em. em\<lparr>activeRangeTriggers := f (activeRangeTriggers em)\<rparr>) s)"
  unfolding quietStep_def em_update_def
  by (rule exI[of _ "f (activeRangeTriggers (eventManager s))"], rule exI[of _ "[]"], rule exI[of _ "[]"]) simp

lemma quietStep_same:
  assumes "quietStep s s'"
  shows "triggers (eventManager s') = triggers (eventManager s)"
    and "listenersOf s' ev = listenersOf s ev"
    and "em_currentFrame (eventManager s') = em_currentFrame (eventManager s)"
    and "em_previousFrame (eventManager s') = em_previousFrame (eventManager s)"
    and "currentFrame s' = currentFrame s"
    and "isPlaying s' = isPlaying s"
    and "frameRequested s' = frameRequested s"
    and "timeline s' = timeline s"
  using assms unfolding quietStep_def listenersOf_def by auto

lemma executeTriggerAction_quiet:
  assumes "\<forall>h\<in>set (listenersOf s (action t)). quiet run h"
  shows "\<exists>s'. executeTriggerAction run t d s = Ok s' \<and> quietStep s s'"
  using dispatchEvent_quiet[OF assms, of "d\<lparr>d_parameters := parameters t\<rparr>"]
  by (auto simp: executeTriggerAction_def quietStep_logs)

lemma forEachTrigger_quiet:
  assumes body: "\<And>t s1. t \<in> set ts \<Longrightarrow> quietStep s s1 \<Longrightarrow> \<exists>s2. body t s1 = Ok s2 \<and> quietStep s1 s2"
  shows "\<exists>s'. forEachTrigger body ts s = Ok s' \<and> quietStep s s'"
  using body
proof (induction ts arbitrary: s)
  case Nil
  show ?case by (simp add: quietStep_refl)
next
  case (Cons t ts)
  from Cons.prems[of t s] obtain s2 where b: "body t s = Ok s2" "quietStep s s2"
    by (auto simp: quietStep_refl)
  have "\<exists>s'. forEachTrigger body ts s2 = Ok s' \<and> quietStep s2 s'"
  proof (rule Cons.IH)
    fix u s1 assume "u \<in> set ts" "quietStep s2 s1"
    then show "\<exists>s3. body u s1 = Ok s3 \<and> quietStep s1 s3"
      using Cons.prems[of u s1] b(2) quietStep_trans by auto
  qed
  with b show ?case by (auto intro: quietStep_trans)
qed

lemma quietTriggers_step:
  assumes "quietTriggers run s" and "quietStep s s1"
  shows "quietTriggers run s1"
  using assms quietStep_same(1,2)[OF assms(2)] by (simp add: quietTriggers_def)

lemma quietTriggers_action:
  assumes "quietTriggers run s" and "t \<in> set (triggers (eventManager s))"
  shows "\<forall>h\<in>set (listenersOf s (action t)). quiet run h"
  using assms by (simp add: quietTriggers_def)

lemma frameTriggerBody_quiet:
  assumes "\<forall>h\<in>set (listenersOf s (action t)). quiet run h"
  shows "\<exists>s'. frameTriggerBody run t s = Ok s' \<and> quietStep s s'"
  using executeTriggerAction_quiet[OF assms]
  by (auto simp: frameTriggerBody_def Let_def quietStep_refl)

lemma listenersOf_em_active [simp]:
  "listenersOf (em_update (\<lambda>em. em\<lparr>activeRangeTriggers := f em\<rparr>) s) ev = listenersOf s ev"
  by (simp add: listenersOf_def em_update_def)

lemma rangeEnterBody_quiet:
  assumes "\<forall>h\<in>set (listenersOf s (action t)). quiet run h"
  shows "\<exists>s'. rangeEnterBody run t s = Ok s' \<and> quietStep s s'"
proof -
  let ?s1 = "em_update (\<lambda>em. em\<lparr>activeRangeTriggers := set_add (trig_id t) (activeRangeTriggers em)\<rparr>) s"
  have q1: "quietStep s ?s1" by (rule quietStep_active)
  have "\<forall>h\<in>set (listenersOf ?s1 (action t)). quiet run h" using assms by simp
  from executeTriggerAction_quiet[OF this, of "rangeData t ?s1"] obtain s' where
    "executeTriggerAction run t (rangeData t ?s1) ?s1 = Ok s'" "quietStep ?s1 s'" by blast
  with q1 have e: "\<exists>s'. executeTriggerAction run t (rangeData t ?s1) ?s1 = Ok s' \<and> quietStep s s'"
    using quietStep_trans by blast
  show ?thesis
    using e quietStep_active[of s "set_delete (trig_id t)"]
    by (auto simp: rangeEnterBody_def Let_def quietStep_refl)
qed

lemma rangeExitBody_quiet:
  assumes "\<forall>h\<in>set (listenersOf s (action t)). quiet run h"
  shows "\<exists>s'. rangeExitBody run t s = Ok s' \<and> quietStep s s'"
proof -
  let ?s1 = "em_update (\<lambda>em. em\<lparr>activeRangeTriggers := set_delete (trig_id t) (activeRangeTriggers em)\<rparr>) s"
  have q1: "quietStep s ?s1" by (rule quietStep_active)
  have "\<forall>h\<in>set (listenersOf ?s1 (action t)). quiet run h" using assms by simp
  from executeTriggerAction_quiet[OF this, of "rangeData t ?s1"] obtain s' where
    "executeTriggerAction run t (rangeData t ?s1) ?s1 = Ok s'" "quietStep ?s1 s'" by blast
  with q1 have e: "\<exists>s'. executeTriggerAction run t (rangeData t ?s1) ?s1 = Ok s' \<and> quietStep s s'"
    using quietStep_trans by blast
  show ?thesis
    using e by (auto simp: rangeExitBody_def Let_def quietStep_refl)
qed

lemma forEachTrigger_quietTriggers:
  assumes q: "quietTriggers run s"
    and sub: "set ts \<subseteq> set (triggers (eventManager s))"
    and body: "\<And>t s1. \<forall>h\<in>set (listenersOf s1 (action t)). quiet run h \<Longrightarrow>
                 \<exists>s2. body t s1 = Ok s2 \<and> quietStep s1 s2"
  shows "\<exists>s'. forEachTrigger body ts s = Ok s' \<and> quietStep s s'"
proof (rule forEachTrigger_quiet)
  fix t s1 assume t: "t \<in> set ts" and st: "quietStep s s1"
  have "quietTriggers run s1" using q st by (rule quietTriggers_step)
  moreover have "t \<in> set (triggers (eventManager s1))"
    using t sub quietStep_same(1)[OF st] by auto
  ultimately have "\<forall>h\<in>set (listenersOf s1 (action t)). quiet run h"
    by (rule quietTriggers_action)
  then show "\<exists>s2. body t s1 = Ok s2 \<and> quietStep s1 s2" by (rule body)
qed

lemma checkFrameTriggers_quiet:
  assumes "quietTriggers run s"
  shows "\<exists>s'. checkFrameTriggers run s = Ok s' \<and> quietStep s s'"
proof (cases "em_currentFrame (eventManager s) = em_previousFrame (eventManager s)")
  case True
  then show ?thesis by (simp add: checkFrameTriggers_def quietStep_refl)
next
  case False
  have "\<exists>s'. forEachTrigger (frameTriggerBody run)
          (filter (\<lambda>t. trig_type t = FRAME_ENTER \<or> trig_type t = FRAME_EXIT) (triggers (eventManager s))) s = Ok s'
        \<and> quietStep s s'"
    by (rule forEachTrigger_quietTriggers[OF assms]) (auto intro: frameTriggerBody_quiet)
  with False show ?thesis by (simp add: checkFrameTriggers_def)
qed

lemma checkRangeTriggers_quiet:
  assumes "quietTriggers run s"
  shows "\<exists>s'. checkRangeTriggers run s = Ok s' \<and> quietStep s s'"
proof (cases "em_currentFrame (eventManager s) = em_previousFrame (eventManager s)")
  case True
  then show ?thesis by (simp add: checkRangeTriggers_def quietStep_refl)
next
  case False
  let ?ts = "filter (\<lambda>t. trig_type t = RANGE_ENTER \<or> trig_type t = RANGE_EXIT) (triggers (eventManager s))"
  have "\<exists>s'. forEachTrigger (rangeEnterBody run) ?ts s = Ok s' \<and> quietStep s s'"
    by (rule forEachTrigger_quietTriggers[OF assms]) (auto intro: rangeEnterBody_quiet)
  then obtain s1 where s1: "forEachTrigger (rangeEnterBody run) ?ts s = Ok s1" "quietStep s s1" by blast
  have q1: "quietTriggers run s1" using assms s1(2) by (rule quietTriggers_step)
  have "\<exists>s'. forEachTrigger (rangeExitBody run) ?ts s1 = Ok s' \<and> quietStep s1 s'"
    by (rule forEachTrigger_quietTriggers[OF q1]) (auto simp: quietStep_same(1)[OF s1(2)] intro: rangeExitBody_quiet)
  then obtain s2 where "forEachTrigger (rangeExitBody run) ?ts s1 = Ok s2" "quietStep s1 s2" by blast
  with s1 False show ?thesis
    by (auto simp add: checkRangeTriggers_def Let_def intro: quietStep_trans)
qed

lemma updateFrame_quiet:
  assumes "quietTriggers run s"
  shows "\<exists>s'. updateFrame run f s = Ok s' \<and>
           quietStep (em_update (\<lambda>em. em\<lparr>em_previousFrame := em_currentFrame em, em_currentFrame := f\<rparr>) s) s'"
proof -
  let ?s1 = "em_update (\<lambda>em. em\<lparr>em_previousFrame := em_currentFrame em, em_currentFrame := f\<rparr>) s"
  have q1: "quietTriggers run ?s1"
    using assms by (simp add: quietTriggers_def em_update_def listenersOf_def)
  from checkFrameTriggers_quiet[OF q1] obtain s2 where
    s2: "checkFrameTriggers run ?s1 = Ok s2" "quietStep ?s1 s2" by blast
  have "quietTriggers run s2" using q1 s2(2) by (rule quietTriggers_step)
  from checkRangeTriggers_quiet[OF this] obtain s3 where
    "checkRangeTriggers run s2 = Ok s3" "quietStep s2 s3" by blast
  with s2 show ?thesis
    by (auto simp add: updateFrame_def Let_def intro: quietStep_trans)
qed


lemma quiet_user: "quiet (runHandler (Suc n)) (HUser u b)"
  by (simp add: quiet_def)

lemma updateFrame_same:
  assumes "em_currentFrame (eventManager s) = f"
  shows "updateFrame run f s = Ok (em_update (\<lambda>em. em\<lparr>em_previousFrame := f\<rparr>) s)"
proof -
  have "em_update (\<lambda>em. em\<lparr>em_previousFrame := em_currentFrame em, em_currentFrame := f\<rparr>) s
        = em_update (\<lambda>em. em\<lparr>em_previousFrame := f\<rparr>) s"
    using assms by (simp add: em_update_def)
  then show ?thesis
    using assms by (simp add: updateFrame_def checkFrameTriggers_def checkRangeTriggers_def em_update_def Let_def)
qed

lemma updateFrame_quiet_frame:
  assumes "quietTriggers run s"
  shows "\<exists>s1. updateFrame run f s = Ok s1 \<and> em_currentFrame (eventManager s1) = f"
proof -
  from updateFrame_quiet[OF assms, of f] obtain s1 where
    "updateFrame run f s = Ok s1"
    "quietStep (em_update (\<lambda>em. em\<lparr>em_previousFrame := em_currentFrame em, em_currentFrame := f\<rparr>) s) s1"
    by blast
  then show ?thesis using quietStep_same(3) by (fastforce simp: em_update_def)
qed

lemma rangeEnter_fires:
  assumes ty: "trig_type t = RANGE_ENTER"
    and ts: "triggers (eventManager s) = [t]"
    and q: "\<forall>h\<in>set (listenersOf s (action t)). quiet run h"
    and out: "\<not> inRange (em_currentFrame (eventManager s)) t"
    and "in": "inRange f t"
  shows "\<exists>cs. updateFrame run f s =
      Ok (s\<lparr>eventManager := (eventManager s)
              \<lparr>em_previousFrame := em_currentFrame (eventManager s), em_currentFrame := f,
               activeRangeTriggers := set_add (trig_id t) (activeRangeTriggers (eventManager s))\<rparr>,
            dispatched := dispatched s @
              [(action t,
                (eventData (trig_id t))
                  \<lparr>d_currentFrame := Some f,
                   d_previousFrame := Some (em_currentFrame (eventManager s)),
                   d_startFrame := Some (trig_startFrame t), d_endFrame := Some (trig_endFrame t),
                   d_parameters := parameters t\<rparr>)],
            console := console s @ cs\<rparr>)"
proof -
  let ?s2 = "s\<lparr>eventManager := (eventManager s)
              \<lparr>em_previousFrame := em_currentFrame (eventManager s), em_currentFrame := f,
               activeRangeTriggers := set_add (trig_id t) (activeRangeTriggers (eventManager s))\<rparr>\<rparr>"
  let ?d = "(eventData (trig_id t))
                  \<lparr>d_currentFrame := Some f,
                   d_previousFrame := Some (em_currentFrame (eventManager s)),
                   d_startFrame := Some (trig_startFrame t), d_endFrame := Some (trig_endFrame t),
                   d_parameters := parameters t\<rparr>"
  have ne: "f \<noteq> em_currentFrame (eventManager s)" using out "in" by auto
  have "\<forall>h\<in>set (listenersOf ?s2 (action t)). quiet run h" using q by (simp add: listenersOf_def)
  from dispatchEvent_quiet[OF this, of ?d] obtain cs where
    de: "dispatchEvent run (action t) ?d ?s2 =
           Ok (?s2\<lparr>dispatched := dispatched ?s2 @ [(action t, ?d)], console := console ?s2 @ cs\<rparr>)"
    by blast
  have "updateFrame run f s = Ok (?s2\<lparr>dispatched := dispatched ?s2 @ [(action t, ?d)], console := console ?s2 @ cs\<rparr>)"
    using ty ts out "in" ne de
    by (simp add: updateFrame_def checkFrameTriggers_def checkRangeTriggers_def em_update_def Let_def
        rangeEnterBody_def rangeExitBody_def executeTriggerAction_def rangeData_def frameData_def)
  then show ?thesis by auto
qed

lemma rangeEnter_inside:
  assumes ty: "trig_type t = RANGE_ENTER"
    and ts: "triggers (eventManager s) = [t]"
    and was: "inRange (em_currentFrame (eventManager s)) t"
    and "in": "inRange f t"
  shows "updateFrame run f s =
      Ok (em_update (\<lambda>em. em\<lparr>em_previousFrame := em_currentFrame em, em_currentFrame := f\<rparr>) s)"
  using assms
  by (simp add: updateFrame_def checkFrameTriggers_def checkRangeTriggers_def em_update_def Let_def
        rangeEnterBody_def rangeExitBody_def)


text \<open>
  Claim C5.  Whatever the triggers and listeners, \<open>updateFrame\<close> with the frame the
  manager already holds fires nothing: it only sets \<open>previousFrame\<close>.  After a call
  \<open>updateFrame(g)\<close> whose listeners were quiet the manager holds \<open>g\<close>, so a second
  call with \<open>g\<close> is of that kind.  And for a manager whose one trigger is a
  \<open>RANGE_ENTER\<close> trigger with quiet listeners: a move from a frame outside the range
  to a frame \<open>f1\<close> inside it dispatches the trigger's action exactly once and adds its
  id to the active set, and a further move to a frame \<open>f2\<close> inside the range
  dispatches nothing and leaves the active set as it is.  The witness is the range
  \<open>[30, 50]\<close> with the moves 29 to 30 and 30 to 40.
\<close>

theorem updateFrame_fires_once:
  assumes ty: "trig_type t = RANGE_ENTER"
    and ts: "triggers (eventManager s) = [t]"
    and q: "\<forall>h\<in>set (listenersOf s (action t)). quiet run h"
    and out: "\<not> inRange (em_currentFrame (eventManager s)) t"
    and in1: "inRange f1 t"
    and in2: "inRange f2 t"
  shows "(\<forall>s0 g. em_currentFrame (eventManager s0) = g \<longrightarrow>
            updateFrame run g s0 = Ok (em_update (\<lambda>em. em\<lparr>em_previousFrame := g\<rparr>) s0))
       \<and> (\<forall>s0 g. quietTriggers run s0 \<longrightarrow>
            (\<exists>s1. updateFrame run g s0 = Ok s1 \<and> em_currentFrame (eventManager s1) = g
                 \<and> updateFrame run g s1 = Ok (em_update (\<lambda>em. em\<lparr>em_previousFrame := g\<rparr>) s1)))
       \<and> (\<exists>s1 s2 d.
            updateFrame run f1 s = Ok s1
          \<and> dispatched s1 = dispatched s @ [(action t, d)] \<and> triggerId d = trig_id t
          \<and> activeRangeTriggers (eventManager s1) = set_add (trig_id t) (activeRangeTriggers (eventManager s))
          \<and> trig_id t \<in> set (activeRangeTriggers (eventManager s1))
          \<and> updateFrame run f2 s1 = Ok s2
          \<and> dispatched s2 = dispatched s1
          \<and> console s2 = console s1
          \<and> activeRangeTriggers (eventManager s2) = activeRangeTriggers (eventManager s1))"
proof (intro conjI allI impI)
  fix s0 :: AnimationEngine and g assume "em_currentFrame (eventManager s0) = g"
  then show "updateFrame run g s0 = Ok (em_update (\<lambda>em. em\<lparr>em_previousFrame := g\<rparr>) s0)"
    by (rule updateFrame_same)
next
  fix s0 :: AnimationEngine and g :: int assume "quietTriggers run s0"
  from updateFrame_quiet_frame[OF this, of g] obtain s1 where
    "updateFrame run g s0 = Ok s1" "em_currentFrame (eventManager s1) = g" by blast
  then show "\<exists>s1. updateFrame run g s0 = Ok s1 \<and> em_currentFrame (eventManager s1) = g
                 \<and> updateFrame run g s1 = Ok (em_update (\<lambda>em. em\<lparr>em_previousFrame := g\<rparr>) s1)"
    using updateFrame_same by blast
next
  from rangeEnter_fires[OF ty ts q out in1] obtain cs where
    u1: "updateFrame run f1 s =
      Ok (s\<lparr>eventManager := (eventManager s)
              \<lparr>em_previousFrame := em_currentFrame (eventManager s), em_currentFrame := f1,
               activeRangeTriggers := set_add (trig_id t) (activeRangeTriggers (eventManager s))\<rparr>,
            dispatched := dispatched s @
              [(action t,
                (eventData (trig_id t))
                  \<lparr>d_currentFrame := Some f1,
                   d_previousFrame := Some (em_currentFrame (eventManager s)),
                   d_startFrame := Some (trig_startFrame t), d_endFrame := Some (trig_endFrame t),
                   d_parameters := parameters t\<rparr>)],
            console := console s @ cs\<rparr>)" (is "_ = Ok ?s1")
    by blast
  have ts1: "triggers (eventManager ?s1) = [t]" using ts by simp
  have was: "inRange (em_currentFrame (eventManager ?s1)) t" using in1 by simp
  from rangeEnter_inside[OF ty ts1 was in2, of run]
  have u2: "updateFrame run f2 ?s1 =
      Ok (em_update (\<lambda>em. em\<lparr>em_previousFrame := em_currentFrame em, em_currentFrame := f2\<rparr>) ?s1)"
    (is "_ = Ok ?s2") .
  show "\<exists>s1 s2 d.
            updateFrame run f1 s = Ok s1
          \<and> dispatched s1 = dispatched s @ [(action t, d)] \<and> triggerId d = trig_id t
          \<and> activeRangeTriggers (eventManager s1) = set_add (trig_id t) (activeRangeTriggers (eventManager s))
          \<and> trig_id t \<in> set (activeRangeTriggers (eventManager s1))
          \<and> updateFrame run f2 s1 = Ok s2
          \<and> dispatched s2 = dispatched s1
          \<and> console s2 = console s1
          \<and> activeRangeTriggers (eventManager s2) = activeRangeTriggers (eventManager s1)"
    apply (rule exI[of _ ?s1], rule exI[of _ ?s2])
    apply (rule exI[of _ "(eventData (trig_id t))
                  \<lparr>d_currentFrame := Some f1,
                   d_previousFrame := Some (em_currentFrame (eventManager s)),
                   d_startFrame := Some (trig_startFrame t), d_endFrame := Some (trig_endFrame t),
                   d_parameters := parameters t\<rparr>"])
    using u1 u2 by (simp add: em_update_def eventData_def set_add_def)
qed

lemma rangeEngine_triggers: "triggers (eventManager rangeEngine) = [rangeTrigger]"
  by code_simp

lemma rangeEngine_listeners: "listenersOf rangeEngine (action rangeTrigger) = [HUser 1 False]"
  by code_simp

theorem updateFrame_fires_once_witness:
  "trig_type rangeTrigger = RANGE_ENTER
   \<and> triggers (eventManager rangeEngine) = [rangeTrigger]
   \<and> em_currentFrame (eventManager rangeEngine) = 29
   \<and> \<not> inRange 29 rangeTrigger \<and> inRange 30 rangeTrigger \<and> inRange 40 rangeTrigger
   \<and> (\<exists>s1 s2 d.
          updateFrame (runHandler 2) 30 rangeEngine = Ok s1
        \<and> dispatched s1 = dispatched rangeEngine @ [(''rangeEnterAction'', d)]
        \<and> triggerId d = ''test-range-trigger''
        \<and> ''test-range-trigger'' \<in> set (activeRangeTriggers (eventManager s1))
        \<and> updateFrame (runHandler 2) 40 s1 = Ok s2
        \<and> dispatched s2 = dispatched s1
        \<and> activeRangeTriggers (eventManager s2) = activeRangeTriggers (eventManager s1))"
proof -
  have ty: "trig_type rangeTrigger = RANGE_ENTER" by code_simp
  have cur: "em_currentFrame (eventManager rangeEngine) = 29" by code_simp
  have rng: "\<not> inRange 29 rangeTrigger" "inRange 30 rangeTrigger" "inRange 40 rangeTrigger"
    by code_simp+
  have act: "action rangeTrigger = ''rangeEnterAction''" "trig_id rangeTrigger = ''test-range-trigger''"
    by code_simp+
  have q: "\<forall>h\<in>set (listenersOf rangeEngine (action rangeTrigger)). quiet (runHandler 2) h"
    by (simp add: rangeEngine_listeners quiet_user numeral_2_eq_2)
  have out: "\<not> inRange (em_currentFrame (eventManager rangeEngine)) rangeTrigger"
    using rng(1) cur by simp
  from updateFrame_fires_once[OF ty rangeEngine_triggers q out rng(2) rng(3)]
  show ?thesis
    using ty rangeEngine_triggers cur rng act by auto
qed

text \<open>
  Claim C7.  On a timeline of at least one frame, \<open>seekToFrame(f)\<close> returns with the
  current frame clamped into \<open>[0, duration - 1]\<close>: \<open>0\<close> for a negative \<open>f\<close>,
  \<open>duration - 1\<close> for \<open>f\<close> at or beyond the duration.  Nothing is assumed about
  the playback state, and \<open>isPlaying\<close> and the pending animation-frame request come
  out as they went in.  The listeners that the frame change may run through a trigger
  are assumed quiet: a listener such as the default \<open>pause\<close> is there to change the
  playback state.
\<close>

lemma clamp_eq: "1 \<le> d \<Longrightarrow> max 0 (min f (d - 1)) = clampFrame d (f::int)"
  by (auto simp: clampFrame_def)

theorem seekToFrame_clamps:
  assumes "1 \<le> tl_duration (timeline s)" and "quietTriggers run s"
  shows "\<exists>s'. seekToFrame run f s = Ok s'
           \<and> currentFrame s' = clampFrame (tl_duration (timeline s)) f
           \<and> 0 \<le> currentFrame s' \<and> currentFrame s' \<le> tl_duration (timeline s) - 1
           \<and> (f < 0 \<longrightarrow> currentFrame s' = 0)
           \<and> (tl_duration (timeline s) \<le> f \<longrightarrow> currentFrame s' = tl_duration (timeline s) - 1)
           \<and> isPlaying s' = isPlaying s \<and> frameRequested s' = frameRequested s"
proof -
  let ?c = "clampFrame (tl_duration (timeline s)) f"
  let ?s1 = "s\<lparr>currentFrame := ?c\<rparr>"
  have q1: "quietTriggers run ?s1"
    using assms(2) by (simp add: quietTriggers_def listenersOf_def)
  from updateFrame_quiet[OF q1, of ?c] obtain s' where
    u: "updateFrame run ?c ?s1 = Ok s'"
    and st: "quietStep (em_update (\<lambda>em. em\<lparr>em_previousFrame := em_currentFrame em, em_currentFrame := ?c\<rparr>) ?s1) s'"
    by blast
  have "seekToFrame run f s = Ok s'"
    using u assms(1) by (simp add: seekToFrame_def Let_def clamp_eq)
  moreover have "currentFrame s' = ?c" "isPlaying s' = isPlaying s" "frameRequested s' = frameRequested s"
    using quietStep_same(5,6,7)[OF st] by (simp_all add: em_update_def)
  ultimately show ?thesis using assms(1) by (auto simp: clampFrame_def)
qed

lemma frameEngine_triggers: "triggers (eventManager frameEngine) = [frameTrigger]"
  by code_simp

lemma frameEngine_listeners: "listenersOf frameEngine (action frameTrigger) = [HUser 1 False]"
  by code_simp

lemma frameEngine_duration: "tl_duration (timeline frameEngine) = 300"
  by code_simp

lemma frameEngine_quiet: "quietTriggers (runHandler 2) frameEngine"
  by (simp add: quietTriggers_def frameEngine_triggers frameEngine_listeners quiet_user numeral_2_eq_2)

theorem seekToFrame_clamps_witness:
  "1 \<le> tl_duration (timeline frameEngine) \<and> quietTriggers (runHandler 2) frameEngine
   \<and> isPlaying frameEngine
   \<and> (\<exists>s'. seekToFrame (runHandler 2) (- 10) frameEngine = Ok s' \<and> currentFrame s' = 0
          \<and> isPlaying s' = isPlaying frameEngine \<and> frameRequested s' = frameRequested frameEngine)
   \<and> (\<exists>s'. seekToFrame (runHandler 2) 1000 frameEngine = Ok s' \<and> currentFrame s' = 299
          \<and> isPlaying s' = isPlaying frameEngine \<and> frameRequested s' = frameRequested frameEngine)"
proof -
  have d: "1 \<le> tl_duration (timeline frameEngine)" by (simp add: frameEngine_duration)
  have p: "isPlaying frameEngine" by code_simp
  from seekToFrame_clamps[OF d frameEngine_quiet, of "- 10"]
       seekToFrame_clamps[OF d frameEngine_quiet, of 1000]
  show ?thesis using d p frameEngine_quiet by (auto simp: frameEngine_duration)
qed

end
